theory Spec2Isabelle
  imports Complex_Main
begin

section \<open>Data model\<close>

text \<open>
  The gateway is TypeScript. Its \<^verbatim>\<open>number\<close> values are modelled as mathematical reals
  (so rounding error, NaN and the infinities of IEEE doubles are outside the model), the
  results of \<^verbatim>\<open>Math.round\<close> as integers, and its strings as \<^typ>\<open>string\<close>, one
  \<^typ>\<open>char\<close> standing for one code unit, so that \<^verbatim>\<open>s.length\<close> is \<^term>\<open>length s\<close>.
  An optional field (\<^verbatim>\<open>endpoints?: ...\<close>) is an \<^typ>\<open>'a option\<close>, with \<^term>\<open>None\<close> for
  \<^verbatim>\<open>undefined\<close>.
\<close>

text \<open>
  A JSON value as \<^verbatim>\<open>JSON.parse\<close> returns it. An object is the list of its properties;
  \<^verbatim>\<open>JSON.parse\<close> keeps one value per key, so a lookup reads the list as a map.
\<close>

datatype json =
  JNull | JBool bool | JNum real | JStr string | JArr "json list" | JObj "(string \<times> json) list"

record endpoint =
  ep_name :: "string option"
  ep_endpoint :: "string option"
  ep_version :: "string option"

text \<open>
  \<^verbatim>\<open>interface RegistrationFile\<close> of the API routes, as the handlers read a resolved
  document. The document is parsed JSON that is cast to the interface unchecked, so every
  field may be absent, also those the interface requires.
\<close>

record registrationFile =
  rf_name :: "string option"
  rf_description :: "string option"
  rf_image :: "string option"
  rf_endpoints :: "endpoint list option"
  rf_supportedTrust :: "string list option"
  rf_active :: "bool option"
  rf_registrations :: "json list option"

text \<open>What \<^verbatim>\<open>readFeedbackSafe\<close> returns.\<close>

record feedback =
  scores :: "real list"
  clientAddresses :: "string list"
  warning :: "string option"

datatype verdict = Untrusted | LowTrust | Neutral | Trusted | HighlyTrusted

section \<open>The scoring engine (POST /agent/score/invoke)\<close>

text \<open>\<^verbatim>\<open>Math.round\<close> rounds to the nearest integer, a tie towards plus infinity.\<close>

definition Math_round :: "real \<Rightarrow> int" where
  "Math_round x = \<lfloor>x + 1 / 2\<rfloor>"

text \<open>\<^verbatim>\<open>scores.reduce((a, b) => a + b, 0)\<close>\<close>

definition reduce_sum :: "real list \<Rightarrow> real" where
  "reduce_sum xs = foldl (\<lambda>a b. a + b) 0 xs"

text \<open>
  \<^verbatim>\<open>computeVariance\<close>: despite its name it returns the square root of the mean squared
  deviation.
\<close>

definition computeVariance :: "real list \<Rightarrow> real" where
  "computeVariance ss =
     (if length ss = 0 then 0
      else
        let mean = reduce_sum ss / real (length ss);
            squaredDiffs = map (\<lambda>s. (s - mean) ^ 2) ss
        in sqrt (reduce_sum squaredDiffs / real (length ss)))"

text \<open>The local constants of the score handler, each as a function of what it reads.\<close>

definition feedbackCount :: "feedback \<Rightarrow> nat" where
  "feedbackCount allFeedback = length (scores allFeedback)"

definition avgScore :: "feedback \<Rightarrow> real" where
  "avgScore allFeedback =
     (if feedbackCount allFeedback > 0
      then reduce_sum (scores allFeedback) / real (feedbackCount allFeedback)
      else 0)"

text \<open>\<^verbatim>\<open>(registrationFile.endpoints?.length || 0) > 0\<close>\<close>

definition hasEndpoints :: "registrationFile \<Rightarrow> bool" where
  "hasEndpoints reg = ((case rf_endpoints reg of None \<Rightarrow> 0 | Some es \<Rightarrow> length es) > 0)"

definition hasTrustMethods :: "registrationFile \<Rightarrow> bool" where
  "hasTrustMethods reg =
     ((case rf_supportedTrust reg of None \<Rightarrow> 0 | Some ts \<Rightarrow> length ts) > 0)"

text \<open>
  \<^verbatim>\<open>registrationFile.description?.length > 50\<close>: with no description the comparison is
  \<^verbatim>\<open>undefined > 50\<close>, which is false.
\<close>

definition identityMaturity :: "registrationFile \<Rightarrow> real" where
  "identityMaturity reg =
     (if hasEndpoints reg then 30 else 0) + (if hasTrustMethods reg then 20 else 0)
     + (if (case rf_description reg of None \<Rightarrow> False | Some d \<Rightarrow> length d > 50)
        then 10 else 0)"

definition volumeScore :: "feedback \<Rightarrow> real" where
  "volumeScore allFeedback = min 30 (real (feedbackCount allFeedback) * 3)"

definition consistencyScore :: "feedback \<Rightarrow> real" where
  "consistencyScore allFeedback =
     (if feedbackCount allFeedback > 0
      then min 20 ((100 - computeVariance (scores allFeedback)) / 5)
      else 0)"

definition reputationConfidence :: "feedback \<Rightarrow> real" where
  "reputationConfidence allFeedback = volumeScore allFeedback + consistencyScore allFeedback"

definition effectiveBaseScore :: "feedback \<Rightarrow> real" where
  "effectiveBaseScore allFeedback =
     (let baseScore = avgScore allFeedback
      in if feedbackCount allFeedback > 0 then baseScore else 50)"

definition trustScore :: "registrationFile \<Rightarrow> feedback \<Rightarrow> int" where
  "trustScore reg allFeedback =
     (let maturityBonus = identityMaturity reg * 0.3;
          confidenceBonus = reputationConfidence allFeedback * 0.2
      in min 100 (max 0
           (Math_round (effectiveBaseScore allFeedback + maturityBonus + confidenceBonus))))"

definition verdictOf :: "int \<Rightarrow> verdict" where
  "verdictOf ts =
     (if ts \<ge> 80 then HighlyTrusted
      else if ts \<ge> 60 then Trusted
      else if ts \<ge> 40 then Neutral
      else if ts \<ge> 20 then LowTrust
      else Untrusted)"

subsection \<open>The formula as the specification words it\<close>














section \<open>JavaScript values and string operations used by the gateway\<close>

text \<open>\<^verbatim>\<open>!v\<close> is true for the falsy values: null, false, 0 and the empty string.\<close>

fun truthy :: "json \<Rightarrow> bool" where
  "truthy JNull = False"
| "truthy (JBool b) = b"
| "truthy (JNum x) = (x \<noteq> 0)"
| "truthy (JStr s) = (s \<noteq> [])"
| "truthy (JArr xs) = True"
| "truthy (JObj kvs) = True"

text \<open>\<^verbatim>\<open>typeof v === "object"\<close> holds for objects, arrays and null.\<close>

fun typeof_object :: "json \<Rightarrow> bool" where
  "typeof_object JNull = True"
| "typeof_object (JArr xs) = True"
| "typeof_object (JObj kvs) = True"
| "typeof_object v = False"

fun Array_isArray :: "json \<Rightarrow> bool" where
  "Array_isArray (JArr xs) = True"
| "Array_isArray v = False"

text \<open>\<^verbatim>\<open>v.key\<close> on a parsed value: \<^term>\<open>None\<close> is \<^verbatim>\<open>undefined\<close>.\<close>

fun property :: "json \<Rightarrow> string \<Rightarrow> json option" where
  "property (JObj kvs) k = map_of kvs k"
| "property v k = None"

text \<open>
  The white space of \<^verbatim>\<open>String.prototype.trim\<close> and of \<^verbatim>\<open>\s\<close> among the code units up
  to 0xFF: tab, line feed, vertical tab, form feed, carriage return, space and no-break
  space.
\<close>

definition js_space :: "char \<Rightarrow> bool" where
  "js_space c =
     (c \<in> set [CHR 0x09, CHR 0x0A, CHR 0x0B, CHR 0x0C, CHR 0x0D, CHR 0x20, CHR 0xA0])"

text \<open>\<^verbatim>\<open>!raw.trim()\<close>: the trimmed string is empty when every code unit is white space.\<close>

definition trim_is_empty :: "string \<Rightarrow> bool" where
  "trim_is_empty raw = list_all js_space raw"

definition ascii_upper :: string where
  "ascii_upper = ''ABCDEFGHIJKLMNOPQRSTUVWXYZ''"

definition ascii_lower :: string where
  "ascii_lower = ''abcdefghijklmnopqrstuvwxyz''"

text \<open>The capital letters of Latin-1 (0xC0 to 0xDE without the multiplication sign).\<close>

definition latin1_upper :: string where
  "latin1_upper =
     [CHR 0xC0, CHR 0xC1, CHR 0xC2, CHR 0xC3, CHR 0xC4, CHR 0xC5, CHR 0xC6, CHR 0xC7,
      CHR 0xC8, CHR 0xC9, CHR 0xCA, CHR 0xCB, CHR 0xCC, CHR 0xCD, CHR 0xCE, CHR 0xCF,
      CHR 0xD0, CHR 0xD1, CHR 0xD2, CHR 0xD3, CHR 0xD4, CHR 0xD5, CHR 0xD6,
      CHR 0xD8, CHR 0xD9, CHR 0xDA, CHR 0xDB, CHR 0xDC, CHR 0xDD, CHR 0xDE]"

definition latin1_lower :: string where
  "latin1_lower =
     [CHR 0xE0, CHR 0xE1, CHR 0xE2, CHR 0xE3, CHR 0xE4, CHR 0xE5, CHR 0xE6, CHR 0xE7,
      CHR 0xE8, CHR 0xE9, CHR 0xEA, CHR 0xEB, CHR 0xEC, CHR 0xED, CHR 0xEE, CHR 0xEF,
      CHR 0xF0, CHR 0xF1, CHR 0xF2, CHR 0xF3, CHR 0xF4, CHR 0xF5, CHR 0xF6,
      CHR 0xF8, CHR 0xF9, CHR 0xFA, CHR 0xFB, CHR 0xFC, CHR 0xFD, CHR 0xFE]"

definition lower_of :: "string \<Rightarrow> string \<Rightarrow> char \<Rightarrow> char" where
  "lower_of uppers lowers c = (case map_of (zip uppers lowers) c of None \<Rightarrow> c | Some d \<Rightarrow> d)"

text \<open>\<^verbatim>\<open>s.toLowerCase()\<close> on code units up to 0xFF.\<close>

definition toLowerCase :: "string \<Rightarrow> string" where
  "toLowerCase s = map (lower_of (ascii_upper @ latin1_upper) (ascii_lower @ latin1_lower)) s"

text \<open>Decimal digits of a natural number and of an integer, as template literals print them.\<close>

fun showNat :: "nat \<Rightarrow> string" where
  "showNat n =
     (if n < 10 then [''0123456789'' ! n]
      else showNat (n div 10) @ [''0123456789'' ! (n mod 10)])"

declare showNat.simps [simp del]

definition showInt :: "int \<Rightarrow> string" where
  "showInt i = (if i < 0 then CHR ''-'' # showNat (nat (- i)) else showNat (nat i))"

subsection \<open>Regular expressions\<close>

text \<open>
  The patterns the gateway tests are written as regular expressions over predicates on
  code units, and matched by derivatives. \<^verbatim>\<open>re.test(s)\<close> searches for a match anywhere
  in \<^verbatim>\<open>s\<close>; here a pattern is matched against the whole string, and the search is
  written into the expression: \<^verbatim>\<open>(^|;)\<close> at the start of a pattern is "nothing, or
  anything ending in a semicolon", \<^verbatim>\<open>(;|$)\<close> at its end is "nothing, or a semicolon and
  anything".
\<close>

datatype rexp =
  Zero | One | Atom "char \<Rightarrow> bool" | Alt rexp rexp | Seq rexp rexp | Star rexp

fun nullable :: "rexp \<Rightarrow> bool" where
  "nullable Zero = False"
| "nullable One = True"
| "nullable (Atom p) = False"
| "nullable (Alt r s) = (nullable r \<or> nullable s)"
| "nullable (Seq r s) = (nullable r \<and> nullable s)"
| "nullable (Star r) = True"

fun deriv :: "char \<Rightarrow> rexp \<Rightarrow> rexp" where
  "deriv c Zero = Zero"
| "deriv c One = Zero"
| "deriv c (Atom p) = (if p c then One else Zero)"
| "deriv c (Alt r s) = Alt (deriv c r) (deriv c s)"
| "deriv c (Seq r s) =
     (if nullable r then Alt (Seq (deriv c r) s) (deriv c s) else Seq (deriv c r) s)"
| "deriv c (Star r) = Seq (deriv c r) (Star r)"

fun matches :: "rexp \<Rightarrow> string \<Rightarrow> bool" where
  "matches r [] = nullable r"
| "matches r (c # cs) = matches (deriv c r) cs"

definition Plus :: "rexp \<Rightarrow> rexp" where
  "Plus r = Seq r (Star r)"

definition Opt :: "rexp \<Rightarrow> rexp" where
  "Opt r = Alt r One"

definition Chr :: "char \<Rightarrow> rexp" where
  "Chr x = Atom (\<lambda>c. c = x)"

definition AnyChar :: rexp where
  "AnyChar = Atom (\<lambda>c. True)"

text \<open>
  A literal under the \<^verbatim>\<open>i\<close> flag: an ASCII letter matches in either case; no code unit
  outside ASCII folds to an ASCII letter.
\<close>

definition Lit_i :: "string \<Rightarrow> rexp" where
  "Lit_i s =
     foldr (\<lambda>x r. Seq (Atom (\<lambda>c. lower_of ascii_upper ascii_lower c
                                  = lower_of ascii_upper ascii_lower x)) r) s One"

text \<open>\<^verbatim>\<open>\d\<close> and \<^verbatim>\<open>\w\<close>\<close>

definition digit :: "char \<Rightarrow> bool" where
  "digit c = (c \<in> set ''0123456789'')"

definition word_char :: "char \<Rightarrow> bool" where
  "word_char c = (c \<in> set (ascii_lower @ ascii_upper @ ''0123456789_''))"

text \<open>\<^verbatim>\<open>(^|;)\<close> and \<^verbatim>\<open>(;|$)\<close> of a search\<close>

definition StartOrSemicolon :: rexp where
  "StartOrSemicolon = Alt One (Seq (Star AnyChar) (Chr CHR '';''))"

definition SemicolonOrEnd :: rexp where
  "SemicolonOrEnd = Alt (Seq (Chr CHR '';'') (Star AnyChar)) One"

text \<open>\<^verbatim>\<open>/(^|;)\s*application\/(?:[\w.+-]+\+)?json\s*(;|$)/i\<close>\<close>

definition re_application_json :: rexp where
  "re_application_json =
     Seq StartOrSemicolon
    (Seq (Star (Atom js_space))
    (Seq (Lit_i ''application/'')
    (Seq (Opt (Seq (Plus (Atom (\<lambda>c. word_char c \<or> c \<in> set ''.+-''))) (Chr CHR ''+'')))
    (Seq (Lit_i ''json'')
    (Seq (Star (Atom js_space))
     SemicolonOrEnd)))))"

text \<open>\<^verbatim>\<open>/(^|;)\s*text\/plain\s*(;|$)/i\<close>\<close>

definition re_text_plain :: rexp where
  "re_text_plain =
     Seq StartOrSemicolon
    (Seq (Star (Atom js_space))
    (Seq (Lit_i ''text/plain'')
    (Seq (Star (Atom js_space))
     SemicolonOrEnd)))"

text \<open>\<^verbatim>\<open>/^\d+$/\<close>\<close>

definition re_digits :: rexp where
  "re_digits = Plus (Atom digit)"

text \<open>\<^verbatim>\<open>/^0x[a-fA-F0-9]{40}$/\<close>\<close>

definition re_address :: rexp where
  "re_address =
     Seq (Chr CHR ''0'') (Seq (Chr CHR ''x'')
       ((Seq (Atom (\<lambda>c. c \<in> set ''abcdefABCDEF0123456789'')) ^^ 40) One))"

subsection \<open>What a regular expression accepts\<close>

text \<open>
  The strings of a regular expression, as an inductive predicate; the matcher is proved to
  decide it.
\<close>

inductive accepts :: "rexp \<Rightarrow> string \<Rightarrow> bool" where
  acc_One: "accepts One []"
| acc_Atom: "p c \<Longrightarrow> accepts (Atom p) [c]"
| acc_AltL: "accepts r s \<Longrightarrow> accepts (Alt r q) s"
| acc_AltR: "accepts q s \<Longrightarrow> accepts (Alt r q) s"
| acc_Seq: "accepts r u \<Longrightarrow> accepts q v \<Longrightarrow> accepts (Seq r q) (u @ v)"
| acc_StarNil: "accepts (Star r) []"
| acc_StarStep: "accepts r u \<Longrightarrow> accepts (Star r) v \<Longrightarrow> accepts (Star r) (u @ v)"

section \<open>The JSON-RPC transport: POST /a2a\<close>

text \<open>
  A POST /a2a request as the gateway reads it: the Content-Type header (absent, or its
  value), the body text, and the payment proof header (absent, or its value).
\<close>

record a2aRequest =
  contentType :: "string option"
  rawBody :: string
  paymentProof :: "string option"

record config =
  bypassPayments :: bool

text \<open>\<^verbatim>\<open>interface RoutePrice\<close>\<close>

record routePrice =
  rp_path :: string
  rp_price :: string
  rp_description :: string

text \<open>
  A response: a JSON body with its HTTP status (\<^verbatim>\<open>c.json(body)\<close> answers 200), or the
  payment library's answer to an unpaid request, which carries the route's price entry.
\<close>

datatype httpResponse = JsonResponse nat json | PaymentRequired routePrice

fun httpStatus :: "httpResponse \<Rightarrow> nat" where
  "httpStatus (JsonResponse st b) = st"
| "httpStatus (PaymentRequired r) = 402"

text \<open>What the task runtime's \<^verbatim>\<open>jsonRpcHandler.handle\<close> does with a body.\<close>

datatype handled = Returned json | Streamed "json list" | Threw

text \<open>
  The collaborators of the transport: \<^verbatim>\<open>JSON.parse\<close> (\<^term>\<open>None\<close> when it throws), the
  payment facilitator's verdict on a proof, and the task runtime.
\<close>

record a2aEnv =
  JSON_parse :: "string \<Rightarrow> json option"
  verifyPayment :: "string \<Rightarrow> bool"
  jsonRpcHandle :: "json \<Rightarrow> handled"

text \<open>What a request made happen: the payment middleware ran, the task runtime was called.\<close>

datatype a2aEvent = PaymentMiddlewareInvoked | RuntimeHandled json

definition jsonRpcError :: "json \<Rightarrow> real \<Rightarrow> string \<Rightarrow> json" where
  "jsonRpcError id' code message =
     JObj [(''jsonrpc'', JStr ''2.0''), (''id'', id'),
           (''error'', JObj [(''code'', JNum code), (''message'', JStr message)])]"

text \<open>The three acceptance clauses of \<^verbatim>\<open>acceptsAsJson\<close>, on the header value or "".\<close>

definition acceptsAsJson :: "string \<Rightarrow> bool" where
  "acceptsAsJson ct =
     (ct = '''' \<or> matches re_application_json ct \<or> matches re_text_plain ct)"

text \<open>
  \<^verbatim>\<open>parseA2AJsonBody\<close>: \<^term>\<open>Inr body\<close> is \<^verbatim>\<open>{ok: true, body}\<close> and \<^term>\<open>Inl response\<close> is
  \<^verbatim>\<open>{ok: false, response}\<close>.
\<close>

definition parseA2AJsonBody :: "a2aEnv \<Rightarrow> a2aRequest \<Rightarrow> json + json" where
  "parseA2AJsonBody env req =
     (let ct = (case contentType req of None \<Rightarrow> '''' | Some h \<Rightarrow> h);
          raw = rawBody req
      in if trim_is_empty raw then Inr JNull
         else if \<not> acceptsAsJson ct
           then Inl (jsonRpcError JNull (- 32600) ''Invalid JSON-RPC Request.'')
         else (case JSON_parse env raw of
                 Some v \<Rightarrow> Inr v
               | None \<Rightarrow> Inl (jsonRpcError JNull (- 32700) ''Parse error'')))"

definition PAID_A2A_METHODS :: "string set" where
  "PAID_A2A_METHODS = {''message/send'', ''message/stream''}"

definition PAID_ENDPOINTS :: "routePrice list" where
  "PAID_ENDPOINTS =
     [\<lparr>rp_path = ''GET /api/agent/:id/profile'', rp_price = ''$0.001'',
       rp_description = ''Fetch agent identity and registration file''\<rparr>,
      \<lparr>rp_path = ''GET /api/agent/*/profile'', rp_price = ''$0.001'',
       rp_description = ''Fetch agent identity and registration file''\<rparr>,
      \<lparr>rp_path = ''POST /api/agent/profile/invoke'', rp_price = ''$0.001'',
       rp_description = ''Fetch agent identity (A2A invoke format)''\<rparr>,
      \<lparr>rp_path = ''POST /api/agent/score/invoke'', rp_price = ''$0.01'',
       rp_description = ''Compute trust score from reputation data''\<rparr>,
      \<lparr>rp_path = ''POST /api/agent/validate/invoke'', rp_price = ''$0.03'',
       rp_description = ''Deep validation of agent endpoints and attestations''\<rparr>,
      \<lparr>rp_path = ''POST /a2a'', rp_price = ''$0.01'',
       rp_description = ''A2A task execution''\<rparr>]"

text \<open>
  Modelled from the spec: the middleware that \<^verbatim>\<open>createPaymentMiddleware\<close> obtains from the
  payment library (@x402/hono, not part of this repository). On a priced route it
  delegates to the payment-verification capability; if verification fails or the proof
  is absent it answers "payment required" with the route's price, otherwise the request
  goes on. A route without a price entry is not gated.
\<close>

definition paymentMiddleware ::
  "a2aEnv \<Rightarrow> routePrice list \<Rightarrow> string \<Rightarrow> a2aRequest
     \<Rightarrow> httpResponse \<times> a2aEvent list \<Rightarrow> httpResponse \<times> a2aEvent list" where
  "paymentMiddleware env routes route req next =
     (let (response, events) =
        (case find (\<lambda>r. rp_path r = route) routes of
           None \<Rightarrow> next
         | Some r \<Rightarrow>
             (case paymentProof req of
                None \<Rightarrow> (PaymentRequired r, [])
              | Some p \<Rightarrow> if verifyPayment env p then next else (PaymentRequired r, [])))
      in (response, PaymentMiddlewareInvoked # events))"

text \<open>
  \<^verbatim>\<open>parseJsonRpcRequest\<close> of the route: it takes the body the middleware stored
  (\<^term>\<open>None\<close> when nothing was stored) and otherwise parses the request itself.
\<close>

definition parseJsonRpcRequest :: "a2aEnv \<Rightarrow> json option \<Rightarrow> a2aRequest \<Rightarrow> json + json" where
  "parseJsonRpcRequest env fromMiddleware req =
     (case fromMiddleware of
        Some b \<Rightarrow> Inr b
      | None \<Rightarrow>
         (let ct = (case contentType req of None \<Rightarrow> '''' | Some h \<Rightarrow> h);
              raw = rawBody req
          in if trim_is_empty raw then Inr JNull
             else if \<not> acceptsAsJson ct
               then Inl (jsonRpcError JNull (- 32600) ''Invalid JSON-RPC Request.'')
             else (case JSON_parse env raw of
                     Some v \<Rightarrow> Inr v
                   | None \<Rightarrow> Inl (jsonRpcError JNull (- 32700) ''Parse error''))))"

text \<open>
  The route \<^verbatim>\<open>a2a.post("/a2a", ...)\<close>. A streamed result answers with its first value
  (\<^verbatim>\<open>undefined\<close>, here null, when there is none); \<^verbatim>\<open>body.id ?? null\<close> is the id of the
  internal error.
\<close>

definition a2aRoute ::
  "a2aEnv \<Rightarrow> json option \<Rightarrow> a2aRequest \<Rightarrow> httpResponse \<times> a2aEvent list" where
  "a2aRoute env fromMiddleware req =
     (case parseJsonRpcRequest env fromMiddleware req of
        Inl response \<Rightarrow> (JsonResponse 200 response, [])
      | Inr body \<Rightarrow>
          if \<not> truthy body \<or> \<not> typeof_object body \<or> Array_isArray body
          then (JsonResponse 200 (jsonRpcError JNull (- 32600) ''Invalid JSON-RPC Request.''), [])
          else
            (case jsonRpcHandle env body of
               Streamed vs \<Rightarrow>
                 (JsonResponse 200 (case vs of [] \<Rightarrow> JNull | v # _ \<Rightarrow> v), [RuntimeHandled body])
             | Returned v \<Rightarrow> (JsonResponse 200 v, [RuntimeHandled body])
             | Threw \<Rightarrow>
                 (JsonResponse 200
                    (jsonRpcError (case property body ''id'' of None \<Rightarrow> JNull | Some i \<Rightarrow> i)
                       (- 32603) ''Internal error''),
                  [RuntimeHandled body])))"

text \<open>\<^verbatim>\<open>typeof body.method === "string"\<close>, with the method when it holds.\<close>

definition stringMethod :: "json \<Rightarrow> string option" where
  "stringMethod body = (case property body ''method'' of Some (JStr m) \<Rightarrow> Some m | _ \<Rightarrow> None)"

text \<open>
  The middleware that \<^verbatim>\<open>createApp\<close> mounts on /a2a, followed by the route (\<^verbatim>\<open>next()\<close>),
  which finds the parsed body under \<^verbatim>\<open>jsonrpcBody\<close>.
\<close>

definition a2aPost :: "config \<Rightarrow> a2aEnv \<Rightarrow> a2aRequest \<Rightarrow> httpResponse \<times> a2aEvent list" where
  "a2aPost cfg env req =
     (case parseA2AJsonBody env req of
        Inl response \<Rightarrow> (JsonResponse 200 response, [])
      | Inr body \<Rightarrow>
          (let next = a2aRoute env (Some body) req
           in if \<not> truthy body \<or> \<not> typeof_object body \<or> Array_isArray body
                 \<or> property body ''method'' = None
              then next
              else
                (case stringMethod body of
                   None \<Rightarrow> next
                 | Some m \<Rightarrow>
                     if \<not> bypassPayments cfg \<and> m \<in> PAID_A2A_METHODS
                     then paymentMiddleware env PAID_ENDPOINTS ''POST /a2a'' req next
                     else next)))"

subsection \<open>Sample requests\<close>

text \<open>
  Three body texts and what \<^verbatim>\<open>JSON.parse\<close> makes of them: a message/send call, a
  tasks/get call, and a single space, which is no JSON text.
\<close>

definition ex_send_raw :: string where
  "ex_send_raw = ''{\"jsonrpc\":\"2.0\",\"id\":\"1\",\"method\":\"message/send\"}''"

definition ex_send_body :: json where
  "ex_send_body =
     JObj [(''jsonrpc'', JStr ''2.0''), (''id'', JStr ''1''), (''method'', JStr ''message/send'')]"

definition ex_get_raw :: string where
  "ex_get_raw = ''{\"jsonrpc\":\"2.0\",\"id\":\"2\",\"method\":\"tasks/get\"}''"

definition ex_get_body :: json where
  "ex_get_body =
     JObj [(''jsonrpc'', JStr ''2.0''), (''id'', JStr ''2''), (''method'', JStr ''tasks/get'')]"

definition ex_JSON_parse :: "string \<Rightarrow> json option" where
  "ex_JSON_parse = [ex_send_raw \<mapsto> ex_send_body, ex_get_raw \<mapsto> ex_get_body]"

text \<open>A facilitator that accepts no proof, and a runtime that knows no task.\<close>

definition ex_task_not_found :: json where
  "ex_task_not_found =
     JObj [(''jsonrpc'', JStr ''2.0''), (''id'', JStr ''2''),
           (''error'', JObj [(''code'', JNum (- 32001)), (''message'', JStr ''Task not found'')])]"

definition ex_env :: a2aEnv where
  "ex_env = \<lparr>JSON_parse = ex_JSON_parse, verifyPayment = (\<lambda>p. False),
             jsonRpcHandle = (\<lambda>b. Returned ex_task_not_found)\<rparr>"

definition ex_cfg :: config where
  "ex_cfg = \<lparr>bypassPayments = False\<rparr>"

definition ex_send_request :: a2aRequest where
  "ex_send_request =
     \<lparr>contentType = Some ''application/json'', rawBody = ex_send_raw, paymentProof = None\<rparr>"

definition ex_get_request :: a2aRequest where
  "ex_get_request =
     \<lparr>contentType = Some ''application/json'', rawBody = ex_get_raw, paymentProof = None\<rparr>"

definition ex_csv_send_request :: a2aRequest where
  "ex_csv_send_request =
     \<lparr>contentType = Some ''text/csv'', rawBody = ex_send_raw, paymentProof = None\<rparr>"

definition ex_csv_request :: a2aRequest where
  "ex_csv_request =
     \<lparr>contentType = Some ''text/csv'', rawBody = ''a,b'', paymentProof = None\<rparr>"

definition ex_broken_request :: a2aRequest where
  "ex_broken_request =
     \<lparr>contentType = Some ''application/json'', rawBody = ''{oops'', paymentProof = None\<rparr>"

definition ex_space_request :: a2aRequest where
  "ex_space_request =
     \<lparr>contentType = Some ''application/json'', rawBody = '' '', paymentProof = None\<rparr>"

definition ex_untyped_send_request :: a2aRequest where
  "ex_untyped_send_request =
     \<lparr>contentType = None, rawBody = ex_send_raw, paymentProof = None\<rparr>"

section \<open>The API routes: collaborators, errors and responses\<close>

text \<open>A value that a call threw: an \<^verbatim>\<open>Error\<close> with its message, or anything else.\<close>

datatype thrown = ErrorObject string | NotAnError

text \<open>
  What \<^verbatim>\<open>fetch(url).catch(() => null)\<close> gives: no response, or a response with its status
  and the outcome of \<^verbatim>\<open>response.json()\<close> (the parsed body, or what it rejects with).
\<close>

datatype fetched = NoResponse | Response nat "thrown + json"

text \<open>
  What the HEAD probe of the validate route gives: a response with its status and the
  milliseconds it took, no response (the fetch rejected, also on the abort after five
  seconds), or an exception inside the \<^verbatim>\<open>try\<close> block.
\<close>

datatype probed = ProbeResponse nat nat | ProbeNoResponse | ProbeThrew thrown

text \<open>
  What \<^verbatim>\<open>reputation.readAllFeedback\<close> resolves to; a field that is not an array is
  \<^term>\<open>None\<close>.
\<close>

record rawFeedback =
  raw_scores :: "real list option"
  raw_clientAddresses :: "string list option"

text \<open>
  The collaborators of the API routes. The registry reads take the name of the chain
  configuration and the agent id; each either returns or throws. \<^verbatim>\<open>decodeBase64\<close> is
  \<^verbatim>\<open>Buffer.from(s, "base64").toString("utf-8")\<close> and \<^verbatim>\<open>parseJson\<close> is \<^verbatim>\<open>JSON.parse\<close>
  (\<^term>\<open>None\<close> when it throws).
\<close>

record world =
  getTokenURI :: "string \<Rightarrow> nat \<Rightarrow> thrown + string"
  getOwner :: "string \<Rightarrow> nat \<Rightarrow> thrown + string"
  getMetadata :: "string \<Rightarrow> nat \<Rightarrow> string \<Rightarrow> thrown + string"
  readAllFeedback :: "string \<Rightarrow> nat \<Rightarrow> thrown + rawFeedback"
  fetch :: "string \<Rightarrow> fetched"
  probe :: "string \<Rightarrow> probed"
  decodeBase64 :: "string \<Rightarrow> string"
  parseJson :: "string \<Rightarrow> json option"

text \<open>The calls a route made, in order: registry reads, fetches and probes.\<close>

datatype event =
  TokenURIRead string nat
| OwnerRead string nat
| MetadataRead string nat string
| FeedbackRead string nat
| Fetched string
| Probed string

text \<open>\<^verbatim>\<open>class RegistrationFileError\<close> with its message and status, or any other thrown value.\<close>

datatype failure = RegistrationFileError string nat | Thrown thrown

text \<open>
  The details of a 400 response: \<^verbatim>\<open>error.flatten()\<close> of the schema library, kept as the
  number of form-level errors and the names of the fields with errors, or a plain text.
\<close>

datatype details = Flattened nat "string list" | Text string

text \<open>
  A response of an API route: \<^verbatim>\<open>badRequest\<close>, \<^verbatim>\<open>notFound\<close> and \<^verbatim>\<open>internalError\<close> with
  the error text and the details, or the 200 response with its payload.
\<close>

datatype 'a apiResponse =
  BadRequest string details
| NotFound string string
| InternalError string string
| Success 'a

fun apiStatus :: "'a apiResponse \<Rightarrow> nat" where
  "apiStatus (BadRequest e d) = 400"
| "apiStatus (NotFound e d) = 404"
| "apiStatus (InternalError e d) = 500"
| "apiStatus (Success out) = 200"

definition DEFAULT_CHAIN :: string where
  "DEFAULT_CHAIN = ''base''"

text \<open>
  \<^verbatim>\<open>CHAINS[chainName] || CHAINS[DEFAULT_CHAIN]\<close> of \<^verbatim>\<open>createClients\<close>: the name of the
  configuration whose registries are read. (A name that every JavaScript object inherits,
  such as \<^verbatim>\<open>toString\<close>, is not looked at here.)
\<close>

definition createClients :: "string \<Rightarrow> string" where
  "createClients chainName =
     (if chainName \<in> set [''base'', ''base-sepolia'', ''ethereum'', ''sepolia'']
      then chainName else DEFAULT_CHAIN)"

section \<open>Registration-file resolution\<close>

text \<open>\<^verbatim>\<open>.\<close> of a pattern matches any code unit but a line terminator.\<close>

definition lineTerminator :: "char \<Rightarrow> bool" where
  "lineTerminator c = (c \<in> set [CHR 0x0A, CHR 0x0D])"

text \<open>
  The capture group of \<^verbatim>\<open>/^data:application\/json;base64,(.+)$/\<close>, \<^term>\<open>None\<close> when the
  URI does not match.
\<close>

definition dataUriPayload :: "string \<Rightarrow> string option" where
  "dataUriPayload uri =
     (let prefix = ''data:application/json;base64,'';
          rest = drop (length prefix) uri
      in if take (length prefix) uri = prefix \<and> rest \<noteq> [] \<and> \<not> list_ex lineTerminator rest
         then Some rest else None)"

text \<open>\<^verbatim>\<open>parseDataUri\<close>; the result \<^verbatim>\<open>null\<close> is \<^term>\<open>JNull\<close>.\<close>

definition parseDataUri :: "world \<Rightarrow> string \<Rightarrow> json" where
  "parseDataUri w uri =
     (case dataUriPayload uri of
        None \<Rightarrow> JNull
      | Some payload \<Rightarrow>
          (let decoded = decodeBase64 w payload
           in case parseJson w decoded of None \<Rightarrow> JNull | Some v \<Rightarrow> v))"

text \<open>\<^verbatim>\<open>tokenUri.startsWith("ipfs://")\<close>\<close>

definition startsWith :: "string \<Rightarrow> string \<Rightarrow> bool" where
  "startsWith s p = (take (length p) s = p)"

text \<open>
  The candidate list \<^verbatim>\<open>fetchUrls\<close>. On a URI that starts with ipfs:// the call
  \<^verbatim>\<open>tokenUri.replace("ipfs://", "")\<close> removes that first occurrence.
\<close>

definition fetchUrls :: "string \<Rightarrow> string list" where
  "fetchUrls tokenUri =
     (if startsWith tokenUri ''ipfs://''
      then (let cid = drop (length ''ipfs://'') tokenUri
            in [''https://ipfs.io/ipfs/'' @ cid,
                ''https://cloudflare-ipfs.com/ipfs/'' @ cid,
                ''https://dweb.link/ipfs/'' @ cid])
      else [tokenUri])"

text \<open>\<^verbatim>\<open>response.ok\<close>\<close>

definition ok :: "nat \<Rightarrow> bool" where
  "ok st = (200 \<le> st \<and> st \<le> 299)"

text \<open>
  \<^verbatim>\<open>new RegistrationFileError(`Failed to fetch registration file: ${lastStatus}`,
  lastStatus)\<close>, then the loop over \<^verbatim>\<open>fetchUrls\<close> with its variable \<^verbatim>\<open>lastStatus\<close> and
  the throw after it.
  After a status that is not ok the loop goes on to the next candidate, for 404 by its
  \<^verbatim>\<open>continue\<close> and for the others by reaching the end of the body.
\<close>

definition failedToFetch :: "nat \<Rightarrow> failure" where
  "failedToFetch lastStatus =
     RegistrationFileError (''Failed to fetch registration file: '' @ showNat lastStatus)
       lastStatus"

fun fetchLoop :: "world \<Rightarrow> nat \<Rightarrow> string list \<Rightarrow> (failure + json) \<times> event list" where
  "fetchLoop w lastStatus [] = (Inl (failedToFetch lastStatus), [])"
| "fetchLoop w lastStatus (fetchUrl # rest) =
     (case fetch w fetchUrl of
        NoResponse \<Rightarrow>
          (let (result, events) = fetchLoop w 502 rest in (result, Fetched fetchUrl # events))
      | Response st body \<Rightarrow>
          if ok st
          then ((case body of Inl t \<Rightarrow> Inl (Thrown t) | Inr doc \<Rightarrow> Inr doc), [Fetched fetchUrl])
          else (let (result, events) = fetchLoop w st rest
                in (result, Fetched fetchUrl # events)))"

text \<open>\<^verbatim>\<open>fetchRegistrationFile\<close>, on the chain configuration of the identity client.\<close>

definition fetchRegistrationFile ::
  "world \<Rightarrow> string \<Rightarrow> nat \<Rightarrow> (failure + json) \<times> event list" where
  "fetchRegistrationFile w chain agentId =
     (case getTokenURI w chain agentId of
        Inl t \<Rightarrow> (Inl (Thrown t), [TokenURIRead chain agentId])
      | Inr tokenUri \<Rightarrow>
          (let dataUriResult = parseDataUri w tokenUri
           in if truthy dataUriResult then (Inr dataUriResult, [TokenURIRead chain agentId])
              else (let (result, events) = fetchLoop w 500 (fetchUrls tokenUri)
                    in (result, TokenURIRead chain agentId # events))))"

text \<open>\<^verbatim>\<open>endpointError\<close>\<close>

definition endpointError :: "string \<Rightarrow> failure \<Rightarrow> 'a apiResponse" where
  "endpointError errorMessage error =
     (case error of
        RegistrationFileError m st \<Rightarrow>
          if st = 404
          then NotFound errorMessage
                 ''Agent registration metadata not found (token URI unresolved)''
          else InternalError errorMessage m
      | Thrown (ErrorObject m) \<Rightarrow> InternalError errorMessage m
      | Thrown NotAnError \<Rightarrow> InternalError errorMessage ''Unknown error'')"



subsection \<open>A sample world\<close>

text \<open>
  Agent 7 is registered under a content-addressed URI that the first gateway does not
  have and the second serves; agent 4 under one that no gateway serves; agent 2 carries
  its document inline; agent 3 carries an inline payload that is no JSON text; no other
  agent exists.
\<close>

definition ex_doc :: json where
  "ex_doc =
     JObj [(''name'', JStr ''Agent Seven''),
           (''description'', JStr ''An agent''),
           (''endpoints'',
              JArr [JObj [(''name'', JStr ''A2A''), (''endpoint'', JStr ''https://one.example/a2a'')],
                    JObj [(''name'', JStr ''MCP''), (''endpoint'', JStr ''https://one.example/mcp'')]]),
           (''supportedTrust'', JArr [JStr ''reputation'', JStr ''tee-attestation''])]"

definition ex_inline_doc :: json where
  "ex_inline_doc = JObj [(''name'', JStr ''Agent Two''), (''description'', JStr ''Inline'')]"

definition ex_inline_uri :: string where
  "ex_inline_uri =
     ''data:application/json;base64,eyJuYW1lIjoiQWdlbnQgVHdvIiwiZGVzY3JpcHRpb24iOiJJbmxpbmUifQ==''"

definition ex_inline_text :: string where
  "ex_inline_text = ''{\"name\":\"Agent Two\",\"description\":\"Inline\"}''"

definition ex_broken_uri :: string where
  "ex_broken_uri = ''data:application/json;base64,e29vcHM=''"

definition ex_owner :: string where
  "ex_owner = ''0x52908400098527886E0F7030069857D2E4169EE7''"

definition ex_getTokenURI :: "string \<Rightarrow> nat \<Rightarrow> thrown + string" where
  "ex_getTokenURI chain agentId =
     (if agentId = 7 then Inr ''ipfs://QmDoc''
      else if agentId = 2 then Inr ex_inline_uri
      else if agentId = 3 then Inr ex_broken_uri
      else if agentId = 4 then Inr ''ipfs://QmGone''
      else Inl (ErrorObject ''execution reverted''))"

text \<open>
  Fetching the broken inline URI itself succeeds (the platform's \<^verbatim>\<open>fetch\<close> serves data
  URIs), and reading the response as JSON then fails.
\<close>

definition ex_fetch :: "string \<Rightarrow> fetched" where
  "ex_fetch url =
     (case map_of
        [(''https://ipfs.io/ipfs/QmDoc'', Response 404 (Inl (ErrorObject ''Unexpected token''))),
         (''https://cloudflare-ipfs.com/ipfs/QmDoc'', Response 200 (Inr ex_doc)),
         (''https://dweb.link/ipfs/QmDoc'', Response 200 (Inr ex_doc)),
         (''https://cloudflare-ipfs.com/ipfs/QmGone'', Response 500 (Inl (ErrorObject ''Unexpected token''))),
         (''https://dweb.link/ipfs/QmGone'', Response 404 (Inl (ErrorObject ''Unexpected token''))),
         (ex_broken_uri, Response 200 (Inl (ErrorObject ''Unexpected token o in JSON at position 1'')))]
        url of
        None \<Rightarrow> NoResponse
      | Some r \<Rightarrow> r)"

definition ex_decodeBase64 :: "string \<Rightarrow> string" where
  "ex_decodeBase64 payload =
     (if payload = ''eyJuYW1lIjoiQWdlbnQgVHdvIiwiZGVzY3JpcHRpb24iOiJJbmxpbmUifQ==''
      then ex_inline_text
      else if payload = ''e29vcHM='' then ''{oops'' else '''')"

definition ex_parseJson :: "string \<Rightarrow> json option" where
  "ex_parseJson = [ex_inline_text \<mapsto> ex_inline_doc]"

definition ex_world :: world where
  "ex_world =
     \<lparr>getTokenURI = ex_getTokenURI,
      getOwner = (\<lambda>chain agentId. Inr ex_owner),
      getMetadata = (\<lambda>chain agentId key. Inl (ErrorObject ''execution reverted'')),
      readAllFeedback = (\<lambda>chain agentId. Inl (ErrorObject '''')),
      fetch = ex_fetch,
      probe = (\<lambda>url. if url = ''https://one.example/a2a'' then ProbeResponse 200 12
                      else ProbeNoResponse),
      decodeBase64 = ex_decodeBase64,
      parseJson = ex_parseJson\<rparr>"

section \<open>Input validation of the API routes\<close>

text \<open>The value of a decimal digit, and \<^verbatim>\<open>BigInt(s)\<close> on a string of decimal digits.\<close>

definition digitValue :: "char \<Rightarrow> nat" where
  "digitValue c = length (takeWhile (\<lambda>d. d \<noteq> c) ''0123456789'')"

definition BigInt :: "string \<Rightarrow> nat" where
  "BigInt s = foldl (\<lambda>acc c. 10 * acc + digitValue c) 0 s"

text \<open>
  \<^verbatim>\<open>parseAgentIdParam\<close>. \<^verbatim>\<open>BigInt\<close> does not throw on a string that passed the pattern,
  so the \<^verbatim>\<open>catch\<close> of the source has no branch here.
\<close>

definition parseAgentIdParam :: "string \<Rightarrow> details + nat" where
  "parseAgentIdParam agentIdParam =
     (if \<not> matches re_digits agentIdParam then Inl (Flattened 1 [])
      else Inr (BigInt agentIdParam))"

text \<open>
  \<^verbatim>\<open>agentIdSchema\<close>: a string of decimal digits, or a number that is a non-negative
  integer, turned into a \<^verbatim>\<open>bigint\<close>. \<^term>\<open>None\<close> is a validation error.
\<close>

definition agentIdSchema :: "json option \<Rightarrow> nat option" where
  "agentIdSchema v =
     (case v of
        Some (JStr s) \<Rightarrow> if matches re_digits s then Some (BigInt s) else None
      | Some (JNum x) \<Rightarrow> if of_int \<lfloor>x\<rfloor> = x \<and> x \<ge> 0 then Some (nat \<lfloor>x\<rfloor>) else None
      | _ \<Rightarrow> None)"

text \<open>\<^verbatim>\<open>z.string().optional().default(DEFAULT_CHAIN)\<close>\<close>

definition chainSchema :: "json option \<Rightarrow> string option" where
  "chainSchema v =
     (case v of
        None \<Rightarrow> Some DEFAULT_CHAIN
      | Some (JStr s) \<Rightarrow> Some s
      | _ \<Rightarrow> None)"

text \<open>
  \<^verbatim>\<open>z.array(z.enum(["endpoints", "wallet", "attestations"])).optional()
  .default(["endpoints", "wallet"])\<close>
\<close>

definition checkName :: "json \<Rightarrow> string option" where
  "checkName v =
     (case v of
        JStr s \<Rightarrow> if s \<in> set [''endpoints'', ''wallet'', ''attestations''] then Some s else None
      | _ \<Rightarrow> None)"

definition checksSchema :: "json option \<Rightarrow> string list option" where
  "checksSchema v =
     (case v of
        None \<Rightarrow> Some [''endpoints'', ''wallet'']
      | Some (JArr xs) \<Rightarrow>
          if list_all (\<lambda>x. checkName x \<noteq> None) xs then Some (map (\<lambda>x. the (checkName x)) xs)
          else None
      | _ \<Rightarrow> None)"

text \<open>
  \<^verbatim>\<open>invokeEnvelopeSchema.safeParse(body)\<close>: the body must be an object; its \<^verbatim>\<open>input\<close> may
  be anything, also absent. \<^term>\<open>Inl\<close> carries the flattened error.
\<close>

definition invokeEnvelopeSchema :: "json \<Rightarrow> details + json option" where
  "invokeEnvelopeSchema body =
     (case body of
        JObj kvs \<Rightarrow> Inr (map_of kvs ''input'')
      | _ \<Rightarrow> Inl (Flattened 1 []))"

text \<open>The names of the fields that failed, in the order of the schema.\<close>

definition failedFields :: "(string \<times> bool) list \<Rightarrow> string list" where
  "failedFields fs = map fst (filter (\<lambda>f. \<not> snd f) fs)"

text \<open>
  \<^verbatim>\<open>profileInputSchema\<close> and \<^verbatim>\<open>scoreInputSchema\<close> (they are the same schema): the input must
  be an object; each field is validated on its own.
\<close>

definition scoreInputSchema :: "json option \<Rightarrow> details + nat \<times> string" where
  "scoreInputSchema input =
     (case input of
        Some (JObj kvs) \<Rightarrow>
          (case (agentIdSchema (map_of kvs ''agentId''), chainSchema (map_of kvs ''chain'')) of
             (Some agentId, Some chain) \<Rightarrow> Inr (agentId, chain)
           | (a, c) \<Rightarrow>
               Inl (Flattened 0 (failedFields [(''agentId'', a \<noteq> None), (''chain'', c \<noteq> None)])))
      | _ \<Rightarrow> Inl (Flattened 1 []))"

definition profileInputSchema :: "json option \<Rightarrow> details + nat \<times> string" where
  "profileInputSchema = scoreInputSchema"

definition validateInputSchema :: "json option \<Rightarrow> details + nat \<times> string \<times> string list" where
  "validateInputSchema input =
     (case input of
        Some (JObj kvs) \<Rightarrow>
          (case (agentIdSchema (map_of kvs ''agentId''), chainSchema (map_of kvs ''chain''),
                 checksSchema (map_of kvs ''checks'')) of
             (Some agentId, Some chain, Some checks) \<Rightarrow> Inr (agentId, chain, checks)
           | (a, c, k) \<Rightarrow>
               Inl (Flattened 0
                      (failedFields [(''agentId'', a \<noteq> None), (''chain'', c \<noteq> None),
                                     (''checks'', k \<noteq> None)])))
      | _ \<Rightarrow> Inl (Flattened 1 []))"

section \<open>Reading a resolved document\<close>

text \<open>
  The handlers read the resolved JSON value at the type of \<^verbatim>\<open>interface RegistrationFile\<close>.
  A field that is absent, or whose value is not of the type the interface declares, reads
  as \<^verbatim>\<open>undefined\<close>.
\<close>

definition stringProperty :: "json \<Rightarrow> string \<Rightarrow> string option" where
  "stringProperty v k = (case property v k of Some (JStr s) \<Rightarrow> Some s | _ \<Rightarrow> None)"

definition asEndpoint :: "json \<Rightarrow> endpoint" where
  "asEndpoint v =
     \<lparr>ep_name = stringProperty v ''name'', ep_endpoint = stringProperty v ''endpoint'',
      ep_version = stringProperty v ''version''\<rparr>"

definition asString :: "json \<Rightarrow> string" where
  "asString v = (case v of JStr s \<Rightarrow> s | _ \<Rightarrow> ''undefined'')"

definition asRegistrationFile :: "json \<Rightarrow> registrationFile" where
  "asRegistrationFile doc =
     \<lparr>rf_name = stringProperty doc ''name'',
      rf_description = stringProperty doc ''description'',
      rf_image = stringProperty doc ''image'',
      rf_endpoints =
        (case property doc ''endpoints'' of Some (JArr es) \<Rightarrow> Some (map asEndpoint es) | _ \<Rightarrow> None),
      rf_supportedTrust =
        (case property doc ''supportedTrust'' of
           Some (JArr ts) \<Rightarrow> Some (map asString ts) | _ \<Rightarrow> None),
      rf_active = (case property doc ''active'' of Some (JBool b) \<Rightarrow> Some b | _ \<Rightarrow> None),
      rf_registrations =
        (case property doc ''registrations'' of Some (JArr rs) \<Rightarrow> Some rs | _ \<Rightarrow> None)\<rparr>"

text \<open>\<^verbatim>\<open>${v}\<close> of a string that may be undefined\<close>

definition template :: "string option \<Rightarrow> string" where
  "template v = (case v of None \<Rightarrow> ''undefined'' | Some s \<Rightarrow> s)"

section \<open>The feedback read\<close>

text \<open>\<^verbatim>\<open>readFeedbackSafe\<close>, with the registry read it makes.\<close>

definition readFeedbackSafe :: "world \<Rightarrow> string \<Rightarrow> nat \<Rightarrow> feedback \<times> event list" where
  "readFeedbackSafe w chain agentId =
     ((case readAllFeedback w chain agentId of
         Inr fb \<Rightarrow>
           \<lparr>scores = (case raw_scores fb of Some ss \<Rightarrow> ss | None \<Rightarrow> []),
            clientAddresses = (case raw_clientAddresses fb of Some cs \<Rightarrow> cs | None \<Rightarrow> []),
            warning = None\<rparr>
       | Inl error \<Rightarrow>
           \<lparr>scores = [], clientAddresses = [],
            warning = Some (case error of ErrorObject m \<Rightarrow> m
                            | NotAnError \<Rightarrow> ''Failed to read feedback'')\<rparr>),
      [FeedbackRead chain agentId])"

section \<open>The profile routes\<close>

record profile =
  pr_agentId :: string
  pr_chain :: string
  pr_owner :: string
  pr_wallet :: string
  pr_name :: "string option"
  pr_description :: "string option"
  pr_image :: "string option"
  pr_endpoints :: "endpoint list"
  pr_supportedTrust :: "string list"
  pr_active :: bool
  pr_registrations :: "json list option"

text \<open>
  What both profile routes do once the agent id and the chain are known. The GET route
  also returns the registrations, the invoke route does not.
\<close>

definition fetchProfile ::
  "world \<Rightarrow> bool \<Rightarrow> nat \<Rightarrow> string \<Rightarrow> profile apiResponse \<times> event list" where
  "fetchProfile w withRegistrations agentId chain =
     (let identity = createClients chain;
          (resolved, events) = fetchRegistrationFile w identity agentId
      in case resolved of
           Inl error \<Rightarrow> (endpointError ''Failed to fetch agent profile'' error, events)
         | Inr doc \<Rightarrow>
             (let registrationFile = asRegistrationFile doc
              in case getOwner w identity agentId of
                   Inl t \<Rightarrow>
                     (endpointError ''Failed to fetch agent profile'' (Thrown t),
                      events @ [OwnerRead identity agentId])
                 | Inr owner \<Rightarrow>
                     (let wallet = (case getMetadata w identity agentId ''agentWallet'' of
                                      Inl t \<Rightarrow> owner | Inr m \<Rightarrow> m)
                      in (Success
                            \<lparr>pr_agentId = showNat agentId, pr_chain = chain, pr_owner = owner,
                             pr_wallet = wallet, pr_name = rf_name registrationFile,
                             pr_description = rf_description registrationFile,
                             pr_image = rf_image registrationFile,
                             pr_endpoints =
                               (case rf_endpoints registrationFile of None \<Rightarrow> [] | Some es \<Rightarrow> es),
                             pr_supportedTrust =
                               (case rf_supportedTrust registrationFile of
                                  None \<Rightarrow> [] | Some ts \<Rightarrow> ts),
                             pr_active =
                               (case rf_active registrationFile of None \<Rightarrow> True | Some a \<Rightarrow> a),
                             pr_registrations =
                               (if withRegistrations
                                then Some (case rf_registrations registrationFile of
                                             None \<Rightarrow> [] | Some rs \<Rightarrow> rs)
                                else None)\<rparr>,
                          events @ [OwnerRead identity agentId,
                                    MetadataRead identity agentId ''agentWallet'']))))"

text \<open>
  GET /agent/:id/profile, on the path parameter and the \<^verbatim>\<open>chain\<close> query parameter
  (\<^verbatim>\<open>c.req.query("chain") || DEFAULT_CHAIN\<close>).
\<close>

definition getProfile ::
  "world \<Rightarrow> string \<Rightarrow> string option \<Rightarrow> profile apiResponse \<times> event list" where
  "getProfile w agentIdParam chainQuery =
     (let chain = (case chainQuery of None \<Rightarrow> DEFAULT_CHAIN
                   | Some q \<Rightarrow> if q = '''' then DEFAULT_CHAIN else q)
      in case parseAgentIdParam agentIdParam of
           Inl d \<Rightarrow> (BadRequest ''Invalid agentId'' d, [])
         | Inr agentId \<Rightarrow> fetchProfile w True agentId chain)"

text \<open>
  POST /agent/profile/invoke, on the body that \<^verbatim>\<open>c.req.json().catch(() => null)\<close> gives
  (\<^term>\<open>JNull\<close> when the request body is no JSON).
\<close>

definition profileInvoke :: "world \<Rightarrow> json \<Rightarrow> profile apiResponse \<times> event list" where
  "profileInvoke w body =
     (case invokeEnvelopeSchema body of
        Inl d \<Rightarrow> (BadRequest ''Invalid request body'' d, [])
      | Inr input \<Rightarrow>
          (case profileInputSchema input of
             Inl d \<Rightarrow> (BadRequest ''Invalid input'' d, [])
           | Inr (agentId, chain) \<Rightarrow> fetchProfile w False agentId chain))"

section \<open>The score route\<close>

record scoreOutput =
  so_agentId :: string
  so_chain :: string
  so_trustScore :: int
  so_verdict :: verdict
  so_feedbackScore :: int
  so_identityMaturity :: real
  so_reputationConfidence :: real
  so_count :: nat
  so_averageScore :: real
  so_uniqueClients :: nat
  so_warning :: "string option"
  so_agentName :: "string option"

text \<open>The response body that the score handler builds from the document and the feedback.\<close>

definition scoreOf :: "nat \<Rightarrow> string \<Rightarrow> registrationFile \<Rightarrow> feedback \<Rightarrow> scoreOutput" where
  "scoreOf agentId chain registrationFile allFeedback =
     \<lparr>so_agentId = showNat agentId, so_chain = chain,
      so_trustScore = trustScore registrationFile allFeedback,
      so_verdict = verdictOf (trustScore registrationFile allFeedback),
      so_feedbackScore = Math_round (effectiveBaseScore allFeedback),
      so_identityMaturity = identityMaturity registrationFile,
      so_reputationConfidence = reputationConfidence allFeedback,
      so_count = feedbackCount allFeedback,
      so_averageScore = of_int (Math_round (avgScore allFeedback * 10)) / 10,
      so_uniqueClients = length (remdups (clientAddresses allFeedback)),
      so_warning = warning allFeedback,
      so_agentName = rf_name registrationFile\<rparr>"

text \<open>POST /agent/score/invoke\<close>

definition scoreInvoke :: "world \<Rightarrow> json \<Rightarrow> scoreOutput apiResponse \<times> event list" where
  "scoreInvoke w body =
     (case invokeEnvelopeSchema body of
        Inl d \<Rightarrow> (BadRequest ''Invalid request body'' d, [])
      | Inr input \<Rightarrow>
          (case scoreInputSchema input of
             Inl d \<Rightarrow> (BadRequest ''Invalid input'' d, [])
           | Inr (agentId, chain) \<Rightarrow>
               (let clients = createClients chain;
                    (resolved, events) = fetchRegistrationFile w clients agentId
                in case resolved of
                     Inl error \<Rightarrow> (endpointError ''Failed to compute trust score'' error, events)
                   | Inr doc \<Rightarrow>
                       (let registrationFile = asRegistrationFile doc;
                            (allFeedback, read) = readFeedbackSafe w clients agentId
                        in (Success (scoreOf agentId chain registrationFile allFeedback),
                            events @ read)))))"

section \<open>The validate route\<close>

datatype endpointState = Reachable | Unreachable | ProbeFailed

record endpointStatusEntry =
  es_name :: "string option"
  es_endpoint :: "string option"
  es_status :: endpointState
  es_latencyMs :: "nat option"
  es_error :: "string option"

record walletStatus =
  ws_address :: string
  ws_valid :: bool
  ws_isOwner :: bool

record attestation =
  at_type :: string
  at_status :: string
  at_details :: "string option"

datatype overallVerdict = Pending | Validated | ValidatedWithWarnings | Partial | Failed

record validationReport =
  endpointStatus :: "endpointStatusEntry list"
  walletStatus :: walletStatus
  attestations :: "attestation list"
  overallVerdict :: overallVerdict
  issues :: "string list"

text \<open>The report as the handler creates it.\<close>

definition initialReport :: validationReport where
  "initialReport =
     \<lparr>endpointStatus = [],
      walletStatus = \<lparr>ws_address = '''', ws_valid = False, ws_isOwner = False\<rparr>,
      attestations = [],
      overallVerdict = Pending,
      issues = []\<rparr>"

text \<open>
  One turn of the loop over the endpoints: the probe, then the entry pushed to
  \<^verbatim>\<open>endpointStatus\<close> and, unless the endpoint is reachable, the issue pushed to
  \<^verbatim>\<open>issues\<close>. An endpoint without an address is fetched as \<^verbatim>\<open>undefined\<close>.
\<close>

definition probeEndpoint ::
  "world \<Rightarrow> endpoint \<Rightarrow> validationReport \<Rightarrow> validationReport \<times> event list" where
  "probeEndpoint w ep report =
     (case probe w (template (ep_endpoint ep)) of
        ProbeResponse st ms \<Rightarrow>
          if ok st
          then (report\<lparr>endpointStatus := endpointStatus report @
                   [\<lparr>es_name = ep_name ep, es_endpoint = ep_endpoint ep, es_status = Reachable,
                     es_latencyMs = Some ms, es_error = None\<rparr>]\<rparr>,
                [Probed (template (ep_endpoint ep))])
          else (report\<lparr>endpointStatus := endpointStatus report @
                   [\<lparr>es_name = ep_name ep, es_endpoint = ep_endpoint ep, es_status = Unreachable,
                     es_latencyMs = None, es_error = Some (''HTTP '' @ showNat st)\<rparr>],
                  issues := issues report @
                   [''Endpoint '' @ template (ep_name ep) @ '' is unreachable'']\<rparr>,
                [Probed (template (ep_endpoint ep))])
      | ProbeNoResponse \<Rightarrow>
          (report\<lparr>endpointStatus := endpointStatus report @
              [\<lparr>es_name = ep_name ep, es_endpoint = ep_endpoint ep, es_status = Unreachable,
                es_latencyMs = None, es_error = Some ''Connection failed''\<rparr>],
             issues := issues report @
              [''Endpoint '' @ template (ep_name ep) @ '' is unreachable'']\<rparr>,
           [Probed (template (ep_endpoint ep))])
      | ProbeThrew t \<Rightarrow>
          (report\<lparr>endpointStatus := endpointStatus report @
              [\<lparr>es_name = ep_name ep, es_endpoint = ep_endpoint ep, es_status = ProbeFailed,
                es_latencyMs = None,
                es_error = Some (case t of ErrorObject m \<Rightarrow> m | NotAnError \<Rightarrow> ''Unknown error'')\<rparr>],
             issues := issues report @
              [''Endpoint '' @ template (ep_name ep) @ '' probe failed'']\<rparr>,
           [Probed (template (ep_endpoint ep))]))"

fun probeEndpoints ::
  "world \<Rightarrow> endpoint list \<Rightarrow> validationReport \<Rightarrow> validationReport \<times> event list" where
  "probeEndpoints w [] report = (report, [])"
| "probeEndpoints w (ep # eps) report =
     (let (report', events) = probeEndpoint w ep report;
          (report'', events') = probeEndpoints w eps report'
      in (report'', events @ events'))"

text \<open>\<^verbatim>\<open>if (checks.includes("endpoints") && registrationFile.endpoints) { ... }\<close>\<close>

definition checkEndpoints ::
  "world \<Rightarrow> string list \<Rightarrow> registrationFile \<Rightarrow> validationReport
     \<Rightarrow> validationReport \<times> event list" where
  "checkEndpoints w checks registrationFile report =
     (case rf_endpoints registrationFile of
        Some eps \<Rightarrow>
          if ''endpoints'' \<in> set checks then probeEndpoints w eps report else (report, [])
      | None \<Rightarrow> (report, []))"

text \<open>
  \<^verbatim>\<open>if (checks.includes("wallet")) { ... }\<close>: the wallet is the metadata entry when the read
  succeeds with a non-empty string, and the owner otherwise.
\<close>

definition checkWallet ::
  "world \<Rightarrow> string list \<Rightarrow> string \<Rightarrow> nat \<Rightarrow> string \<Rightarrow> validationReport
     \<Rightarrow> validationReport \<times> event list" where
  "checkWallet w checks identity agentId owner report =
     (if ''wallet'' \<in> set checks
      then
        (let wallet = (case getMetadata w identity agentId ''agentWallet'' of
                         Inr walletMeta \<Rightarrow> if walletMeta \<noteq> '''' then walletMeta else owner
                       | Inl t \<Rightarrow> owner);
             isValidAddress = matches re_address wallet
         in (report\<lparr>walletStatus :=
                      \<lparr>ws_address = wallet, ws_valid = isValidAddress,
                       ws_isOwner = (toLowerCase wallet = toLowerCase owner)\<rparr>,
                    issues := issues report @
                      (if \<not> isValidAddress then [''Invalid wallet address format''] else [])\<rparr>,
             [MetadataRead identity agentId ''agentWallet'']))
      else (report, []))"

text \<open>One turn of the loop over \<^verbatim>\<open>supportedTrust\<close>.\<close>

definition attest ::
  "world \<Rightarrow> string \<Rightarrow> nat \<Rightarrow> string \<Rightarrow> validationReport \<Rightarrow> validationReport \<times> event list" where
  "attest w reputation agentId trustType report =
     (if trustType = ''reputation''
      then
        (let (feedback, read) = readFeedbackSafe w reputation agentId;
             count = length (scores feedback);
             average = (if count > 0 then reduce_sum (scores feedback) / real count else 0)
         in (report\<lparr>attestations := attestations report @
               [\<lparr>at_type = ''reputation'',
                 at_status = (if count > 0 then ''active'' else ''no-feedback''),
                 at_details =
                   Some (case warning feedback of
                           None \<Rightarrow>
                             showNat count @ '' feedbacks, avg score: ''
                               @ showInt (Math_round average)
                         | Some wn \<Rightarrow>
                             if wn \<noteq> '''' then ''feedback unavailable: '' @ wn
                             else showNat count @ '' feedbacks, avg score: ''
                                    @ showInt (Math_round average))\<rparr>]\<rparr>,
             read))
      else if trustType = ''tee-attestation''
      then (report\<lparr>attestations := attestations report @
              [\<lparr>at_type = ''tee-attestation'', at_status = ''declared'',
                at_details = Some ''TEE attestation verification not yet implemented''\<rparr>]\<rparr>, [])
      else if trustType = ''crypto-economic''
      then (report\<lparr>attestations := attestations report @
              [\<lparr>at_type = ''crypto-economic'', at_status = ''declared'',
                at_details = Some ''Crypto-economic validation not yet implemented''\<rparr>]\<rparr>, [])
      else (report\<lparr>attestations := attestations report @
              [\<lparr>at_type = trustType, at_status = ''unknown'', at_details = None\<rparr>]\<rparr>, []))"

fun attestAll ::
  "world \<Rightarrow> string \<Rightarrow> nat \<Rightarrow> string list \<Rightarrow> validationReport
     \<Rightarrow> validationReport \<times> event list" where
  "attestAll w reputation agentId [] report = (report, [])"
| "attestAll w reputation agentId (trustType # rest) report =
     (let (report', events) = attest w reputation agentId trustType report;
          (report'', events') = attestAll w reputation agentId rest report'
      in (report'', events @ events'))"

text \<open>\<^verbatim>\<open>if (checks.includes("attestations") && registrationFile.supportedTrust) { ... }\<close>\<close>

definition checkAttestations ::
  "world \<Rightarrow> string list \<Rightarrow> string \<Rightarrow> nat \<Rightarrow> registrationFile \<Rightarrow> validationReport
     \<Rightarrow> validationReport \<times> event list" where
  "checkAttestations w checks reputation agentId registrationFile report =
     (case rf_supportedTrust registrationFile of
        Some ts \<Rightarrow>
          if ''attestations'' \<in> set checks then attestAll w reputation agentId ts report
          else (report, [])
      | None \<Rightarrow> (report, []))"

text \<open>The verdict, from the report that the checks left.\<close>

definition determineVerdict :: "validationReport \<Rightarrow> validationReport" where
  "determineVerdict report =
     (let reachableEndpoints =
            length (filter (\<lambda>e. es_status e = Reachable) (endpointStatus report));
          totalEndpoints = length (endpointStatus report);
          walletValid = ws_valid (walletStatus report)
      in if length (issues report) = 0 then report\<lparr>overallVerdict := Validated\<rparr>
         else if reachableEndpoints = totalEndpoints \<and> walletValid
           then report\<lparr>overallVerdict := ValidatedWithWarnings\<rparr>
         else if reachableEndpoints > 0 \<or> walletValid then report\<lparr>overallVerdict := Partial\<rparr>
         else report\<lparr>overallVerdict := Failed\<rparr>)"

text \<open>
  The handler from the creation of the report to the verdict: the three checks in their
  order, each one only if requested, and then the verdict.
\<close>

definition validationOf ::
  "world \<Rightarrow> string list \<Rightarrow> string \<Rightarrow> nat \<Rightarrow> registrationFile \<Rightarrow> string
     \<Rightarrow> validationReport \<times> event list" where
  "validationOf w checks clients agentId registrationFile owner =
     (let (r1, e1) = checkEndpoints w checks registrationFile initialReport;
          (r2, e2) = checkWallet w checks clients agentId owner r1;
          (r3, e3) = checkAttestations w checks clients agentId registrationFile r2
      in (determineVerdict r3, e1 @ e2 @ e3))"

record validateOutput =
  vo_agentId :: string
  vo_chain :: string
  vo_agentName :: "string option"
  vo_report :: validationReport

text \<open>POST /agent/validate/invoke\<close>

definition validateInvoke :: "world \<Rightarrow> json \<Rightarrow> validateOutput apiResponse \<times> event list" where
  "validateInvoke w body =
     (case invokeEnvelopeSchema body of
        Inl d \<Rightarrow> (BadRequest ''Invalid request body'' d, [])
      | Inr input \<Rightarrow>
          (case validateInputSchema input of
             Inl d \<Rightarrow> (BadRequest ''Invalid input'' d, [])
           | Inr (agentId, chain, checks) \<Rightarrow>
               (let clients = createClients chain;
                    (resolved, events) = fetchRegistrationFile w clients agentId
                in case resolved of
                     Inl error \<Rightarrow> (endpointError ''Failed to validate agent'' error, events)
                   | Inr doc \<Rightarrow>
                       (let registrationFile = asRegistrationFile doc
                        in case getOwner w clients agentId of
                             Inl t \<Rightarrow>
                               (endpointError ''Failed to validate agent'' (Thrown t),
                                events @ [OwnerRead clients agentId])
                           | Inr owner \<Rightarrow>
                               (let (report, checked) =
                                      validationOf w checks clients agentId registrationFile owner
                                in (Success
                                      \<lparr>vo_agentId = showNat agentId, vo_chain = chain,
                                       vo_agentName = rf_name registrationFile,
                                       vo_report = report\<rparr>,
                                    events @ [OwnerRead clients agentId] @ checked))))))"

subsection \<open>The verdict as the specification words it\<close>

text \<open>
  No issues: validated. Issues, but all endpoints reachable and the wallet valid:
  validated-with-warnings. At least one of "some endpoint reachable" and "wallet valid":
  partial. Otherwise failed.
\<close>

definition spec_overallVerdict :: "string list \<Rightarrow> endpointState list \<Rightarrow> bool \<Rightarrow> overallVerdict" where
  "spec_overallVerdict iss endpoints walletValid =
     (if iss = [] then Validated
      else if list_all (\<lambda>s. s = Reachable) endpoints \<and> walletValid then ValidatedWithWarnings
      else if list_ex (\<lambda>s. s = Reachable) endpoints \<or> walletValid then Partial
      else Failed)"


text \<open>
  An invariant of the endpoint probes: whenever there is an issue, some endpoint entry is
  not reachable.
\<close>

definition issuesExplained :: "validationReport \<Rightarrow> bool" where
  "issuesExplained r =
     (issues r = [] \<or> \<not> list_all (\<lambda>e. es_status e = Reachable) (endpointStatus r))"

subsection \<open>Sample invoke bodies\<close>

definition ex_bad_id_body :: json where
  "ex_bad_id_body = JObj [(''input'', JObj [(''agentId'', JStr ''12a'')])]"

definition ex_validate_endpoints_body :: json where
  "ex_validate_endpoints_body =
     JObj [(''input'', JObj [(''agentId'', JStr ''7''), (''checks'', JArr [JStr ''endpoints''])])]"

definition ex_validate_attestations_body :: json where
  "ex_validate_attestations_body =
     JObj [(''input'',
            JObj [(''agentId'', JStr ''7''), (''checks'', JArr [JStr ''attestations''])])]"

definition ex_score_body :: json where
  "ex_score_body = JObj [(''input'', JObj [(''agentId'', JStr ''7'')])]"

text \<open>The sample world with a feedback read that succeeds and finds no feedback.\<close>

definition ex_world_no_feedback :: world where
  "ex_world_no_feedback =
     ex_world\<lparr>readAllFeedback :=
       (\<lambda>chain agentId. Inr \<lparr>raw_scores = Some [], raw_clientAddresses = Some []\<rparr>)\<rparr>"
section \<open>Properties of the scoring engine\<close>














text \<open>
  C5. The verdict of a trust score is given by inclusive lower bounds: at least 80 is
  highly-trusted, 60 to 79 trusted, 40 to 59 neutral, 20 to 39 low-trust, at most 19
  untrusted; the eight boundary scores 80, 79, 60, 59, 40, 39, 20 and 19 fall as the
  specification lists them.
\<close>

theorem verdict_bands:
  "(verdictOf ts = HighlyTrusted \<longleftrightarrow> 80 \<le> ts)
   \<and> (verdictOf ts = Trusted \<longleftrightarrow> 60 \<le> ts \<and> ts \<le> 79)
   \<and> (verdictOf ts = Neutral \<longleftrightarrow> 40 \<le> ts \<and> ts \<le> 59)
   \<and> (verdictOf ts = LowTrust \<longleftrightarrow> 20 \<le> ts \<and> ts \<le> 39)
   \<and> (verdictOf ts = Untrusted \<longleftrightarrow> ts \<le> 19)
   \<and> verdictOf 80 = HighlyTrusted \<and> verdictOf 79 = Trusted
   \<and> verdictOf 60 = Trusted \<and> verdictOf 59 = Neutral
   \<and> verdictOf 40 = Neutral \<and> verdictOf 39 = LowTrust
   \<and> verdictOf 20 = LowTrust \<and> verdictOf 19 = Untrusted"
  by (simp add: verdictOf_def)


section \<open>The matcher decides the patterns\<close>

inductive_cases acc_ZeroE: "accepts Zero s"
inductive_cases acc_OneE: "accepts One s"
inductive_cases acc_AtomE: "accepts (Atom p) s"
inductive_cases acc_AltE: "accepts (Alt r q) s"
inductive_cases acc_SeqE: "accepts (Seq r q) s"

lemma nullable_accepts: "nullable r = accepts r []"
proof (induction r)
  case Zero
  show ?case by (auto elim: acc_ZeroE)
next
  case One
  show ?case by (auto intro: acc_One)
next
  case (Atom p)
  show ?case by (auto elim: acc_AtomE)
next
  case (Alt r q)
  then show ?case by (auto intro: acc_AltL acc_AltR elim: acc_AltE)
next
  case (Seq r q)
  have "accepts (Seq r q) [] \<longleftrightarrow> accepts r [] \<and> accepts q []"
  proof
    assume "accepts (Seq r q) []"
    then show "accepts r [] \<and> accepts q []" by (auto elim: acc_SeqE)
  next
    assume "accepts r [] \<and> accepts q []"
    then have "accepts (Seq r q) ([] @ [])" by (blast intro: acc_Seq)
    then show "accepts (Seq r q) []" by simp
  qed
  with Seq show ?case by simp
next
  case (Star r)
  show ?case by (auto intro: acc_StarNil)
qed

lemma accepts_deriv: "accepts r w \<Longrightarrow> w = c # s \<Longrightarrow> accepts (deriv c r) s"
proof (induction r w arbitrary: s rule: accepts.induct)
  case acc_One
  then show ?case by simp
next
  case (acc_Atom p d)
  then show ?case by (auto intro: acc_One)
next
  case (acc_AltL r s' q)
  then show ?case by (auto intro: accepts.acc_AltL)
next
  case (acc_AltR q s' r)
  then show ?case by (auto intro: accepts.acc_AltR)
next
  case (acc_Seq r u q v)
  show ?case
  proof (cases u)
    case Nil
    with acc_Seq have "nullable r" "accepts (deriv c q) s" by (simp_all add: nullable_accepts)
    then show ?thesis by (auto intro: accepts.acc_AltR)
  next
    case (Cons d u')
    with acc_Seq have "d = c" "s = u' @ v" "accepts (deriv c r) u'" by simp_all
    with acc_Seq(2) have "accepts (Seq (deriv c r) q) s" by (auto intro: accepts.acc_Seq)
    then show ?thesis by (auto intro: accepts.acc_AltL)
  qed
next
  case (acc_StarNil r)
  then show ?case by simp
next
  case (acc_StarStep r u v)
  show ?case
  proof (cases u)
    case Nil
    with acc_StarStep show ?thesis by simp
  next
    case (Cons d u')
    with acc_StarStep have "d = c" "s = u' @ v" "accepts (deriv c r) u'" by simp_all
    with acc_StarStep(2) show ?thesis by (auto intro: accepts.acc_Seq)
  qed
qed

lemma deriv_accepts: "accepts (deriv c r) s \<Longrightarrow> accepts r (c # s)"
proof (induction r arbitrary: s)
  case Zero
  then show ?case by (auto elim: acc_ZeroE)
next
  case One
  then show ?case by (auto elim: acc_ZeroE)
next
  case (Atom p)
  then show ?case by (auto split: if_splits elim: acc_ZeroE acc_OneE intro: acc_Atom)
next
  case (Alt r q)
  then show ?case by (auto elim!: acc_AltE intro: acc_AltL acc_AltR)
next
  case (Seq r q)
  have step: "accepts (Seq r q) (c # s)" if "accepts (Seq (deriv c r) q) s"
  proof -
    from that obtain u v where "s = u @ v" "accepts (deriv c r) u" "accepts q v"
      by (auto elim: acc_SeqE)
    with Seq.IH(1) have "accepts (Seq r q) ((c # u) @ v)" by (blast intro: acc_Seq)
    with \<open>s = u @ v\<close> show ?thesis by simp
  qed
  show ?case
  proof (cases "nullable r")
    case True
    with Seq.prems have "accepts (Seq (deriv c r) q) s \<or> accepts (deriv c q) s"
      by (auto elim: acc_AltE)
    then show ?thesis
    proof
      assume "accepts (Seq (deriv c r) q) s"
      then show ?thesis by (rule step)
    next
      assume "accepts (deriv c q) s"
      with Seq.IH(2) have "accepts q (c # s)" by blast
      with True acc_Seq [of r "[]" q "c # s"] show ?thesis
        by (simp add: nullable_accepts)
    qed
  next
    case False
    with Seq.prems show ?thesis by (auto intro: step)
  qed
next
  case (Star r)
  then obtain u v where "s = u @ v" "accepts (deriv c r) u" "accepts (Star r) v"
    by (auto elim: acc_SeqE)
  with Star.IH have "accepts (Star r) ((c # u) @ v)" by (blast intro: acc_StarStep)
  with \<open>s = u @ v\<close> show ?case by simp
qed

lemma matches_accepts: "matches r s = accepts r s"
proof (induction s arbitrary: r)
  case Nil
  show ?case by (simp add: nullable_accepts)
next
  case (Cons c s)
  then show ?case using accepts_deriv [of r "c # s" c s] deriv_accepts [of c r s] by auto
qed

lemma star_atom: "accepts (Star (Atom p)) s = list_all p s"
proof
  assume "accepts (Star (Atom p)) s"
  then show "list_all p s"
  proof (induction "Star (Atom p)" s rule: accepts.induct)
    case acc_StarNil
    then show ?case by simp
  next
    case (acc_StarStep u v)
    then show ?case by (auto elim: acc_AtomE)
  qed
next
  assume "list_all p s"
  then show "accepts (Star (Atom p)) s"
  proof (induction s)
    case Nil
    then show ?case by (auto intro: acc_StarNil)
  next
    case (Cons c s)
    then have "accepts (Atom p) [c]" "accepts (Star (Atom p)) s"
      by (auto intro: acc_Atom)
    with acc_StarStep [of "Atom p" "[c]" s] show ?case by simp
  qed
qed

lemma digits_pattern: "matches re_digits s = (s \<noteq> [] \<and> list_all digit s)"
proof -
  have "accepts (Seq (Atom digit) (Star (Atom digit))) s = (s \<noteq> [] \<and> list_all digit s)"
  proof
    assume "accepts (Seq (Atom digit) (Star (Atom digit))) s"
    then show "s \<noteq> [] \<and> list_all digit s"
      by (auto elim!: acc_SeqE acc_AtomE simp: star_atom)
  next
    assume a: "s \<noteq> [] \<and> list_all digit s"
    then obtain c t where s: "s = c # t" by (cases s) auto
    with a have "accepts (Atom digit) [c]" "accepts (Star (Atom digit)) t"
      by (auto intro: acc_Atom simp: star_atom)
    with acc_Seq [of "Atom digit" "[c]" "Star (Atom digit)" t] s
    show "accepts (Seq (Atom digit) (Star (Atom digit))) s" by simp
  qed
  then show ?thesis by (simp add: matches_accepts re_digits_def Plus_def)
qed

lemma repeat_atom:
  "accepts ((Seq (Atom p) ^^ n) One) s = (length s = n \<and> list_all p s)"
proof (induction n arbitrary: s)
  case 0
  show ?case by (auto elim: acc_OneE intro: acc_One)
next
  case (Suc n)
  show ?case
  proof
    assume "accepts ((Seq (Atom p) ^^ Suc n) One) s"
    then show "length s = Suc n \<and> list_all p s"
      by (auto elim!: acc_SeqE acc_AtomE simp: Suc)
  next
    assume a: "length s = Suc n \<and> list_all p s"
    then obtain c t where s: "s = c # t" by (cases s) auto
    with a have "accepts (Atom p) [c]" "accepts ((Seq (Atom p) ^^ n) One) t"
      by (auto intro: acc_Atom simp: Suc)
    with acc_Seq [of "Atom p" "[c]" "(Seq (Atom p) ^^ n) One" t] s
    show "accepts ((Seq (Atom p) ^^ Suc n) One) s" by simp
  qed
qed

lemma chr_seq: "accepts (Seq (Chr x) r) s = (\<exists>t. s = x # t \<and> accepts r t)"
proof
  assume "accepts (Seq (Chr x) r) s"
  then show "\<exists>t. s = x # t \<and> accepts r t"
    by (auto simp: Chr_def elim!: acc_SeqE acc_AtomE)
next
  assume "\<exists>t. s = x # t \<and> accepts r t"
  then obtain t where t: "s = x # t" "accepts r t" by blast
  have "accepts (Chr x) [x]" by (simp add: Chr_def acc_Atom)
  with t acc_Seq [of "Chr x" "[x]" r t] show "accepts (Seq (Chr x) r) s" by simp
qed

lemma address_pattern:
  "matches re_address s =
     (\<exists>t. s = ''0x'' @ t \<and> length t = 40
          \<and> list_all (\<lambda>c. c \<in> set ''abcdefABCDEF0123456789'') t)"
  by (simp add: matches_accepts re_address_def chr_seq repeat_atom) blast

section \<open>Properties of the JSON-RPC transport\<close>

lemmas rexp_eval =
  re_application_json_def re_text_plain_def StartOrSemicolon_def SemicolonOrEnd_def Lit_i_def
  AnyChar_def Chr_def Opt_def Plus_def js_space_def word_char_def digit_def lower_of_def
  ascii_upper_def ascii_lower_def

lemma accepts_application_json: "acceptsAsJson ''application/json''"
  by (simp add: acceptsAsJson_def rexp_eval)

lemma rejects_text_csv:
  "\<not> matches re_application_json ''text/csv'' \<and> \<not> matches re_text_plain ''text/csv''"
  by (simp add: rexp_eval)

text \<open>
  Some header values and what the acceptance test makes of them. The patterns look at each
  part between semicolons, so a value that names application/json in a parameter position
  is accepted as well.
\<close>

lemma content_type_examples:
  "acceptsAsJson ''Application/JSON; charset=utf-8''"
  "acceptsAsJson ''application/ld+json''"
  "acceptsAsJson ''text/plain;charset=UTF-8''"
  "acceptsAsJson ''text/csv;application/json''"
  "\<not> acceptsAsJson ''application/xml''"
  "\<not> acceptsAsJson ''text/html; charset=utf-8''"
  "\<not> acceptsAsJson ''application/jsonp''"
  "\<not> acceptsAsJson '' ''"
  by (simp_all add: acceptsAsJson_def rexp_eval)

lemma ex_parse_send: "ex_JSON_parse ex_send_raw = Some ex_send_body"
  by (simp add: ex_JSON_parse_def ex_send_raw_def ex_get_raw_def)

lemma ex_parse_get: "ex_JSON_parse ex_get_raw = Some ex_get_body"
  by (simp add: ex_JSON_parse_def)

lemma ex_parse_other:
  "ex_JSON_parse '' '' = None \<and> ex_JSON_parse ''{oops'' = None \<and> ex_JSON_parse ''a,b'' = None"
  by (simp add: ex_JSON_parse_def ex_send_raw_def ex_get_raw_def)

lemma ex_methods:
  "stringMethod ex_send_body = Some ''message/send''
   \<and> stringMethod ex_get_body = Some ''tasks/get''"
  by (simp add: stringMethod_def ex_send_body_def ex_get_body_def)

lemma stringMethod_object:
  "stringMethod body = Some m \<Longrightarrow>
     truthy body \<and> typeof_object body \<and> \<not> Array_isArray body \<and> property body ''method'' \<noteq> None"
  by (cases body) (simp_all add: stringMethod_def split: option.splits)

lemma route_events: "PaymentMiddlewareInvoked \<notin> set (snd (a2aRoute env fm req))"
  by (simp add: a2aRoute_def split: sum.splits handled.splits)

lemma payment_gate_iff:
  "PaymentMiddlewareInvoked \<in> set (snd (a2aPost cfg env req)) \<longleftrightarrow>
     (\<exists>body m. parseA2AJsonBody env req = Inr body \<and> stringMethod body = Some m
        \<and> m \<in> PAID_A2A_METHODS \<and> \<not> bypassPayments cfg)"
proof (cases "parseA2AJsonBody env req")
  case (Inl response)
  then show ?thesis by (simp add: a2aPost_def)
next
  case (Inr body)
  show ?thesis
  proof (cases "stringMethod body")
    case None
    with Inr show ?thesis by (simp add: a2aPost_def Let_def route_events)
  next
    case (Some m)
    with Inr stringMethod_object [OF Some] show ?thesis
      by (auto simp: a2aPost_def Let_def route_events paymentMiddleware_def split_beta)
  qed
qed

lemma unpaid_method_not_gated:
  assumes "JSON_parse env (rawBody req) = Some body" "stringMethod body = Some m"
    "m \<notin> PAID_A2A_METHODS"
  shows "PaymentMiddlewareInvoked \<notin> set (snd (a2aPost cfg env req))"
proof (cases "parseA2AJsonBody env req")
  case (Inl response)
  then show ?thesis by (simp add: a2aPost_def)
next
  case (Inr b)
  show ?thesis
  proof (cases "b = body")
    case True
    with Inr assms(2,3) stringMethod_object [OF assms(2)] show ?thesis
      by (simp add: a2aPost_def Let_def route_events)
  next
    case False
    with Inr assms(1) have "b = JNull"
      by (simp add: parseA2AJsonBody_def Let_def split: if_splits)
    with Inr show ?thesis by (simp add: a2aPost_def Let_def route_events)
  qed
qed

lemma paid_method_gated:
  assumes "\<not> trim_is_empty (rawBody req)"
    "acceptsAsJson (case contentType req of None \<Rightarrow> '''' | Some h \<Rightarrow> h)"
    "JSON_parse env (rawBody req) = Some body" "stringMethod body = Some m"
    "m \<in> PAID_A2A_METHODS" "\<not> bypassPayments cfg"
    "case paymentProof req of None \<Rightarrow> True | Some p \<Rightarrow> \<not> verifyPayment env p"
  shows "\<exists>r. a2aPost cfg env req = (PaymentRequired r, [PaymentMiddlewareInvoked])"
proof -
  have p: "parseA2AJsonBody env req = Inr body"
    using assms(1-3) by (simp add: parseA2AJsonBody_def Let_def)
  have "\<exists>r. paymentMiddleware env PAID_ENDPOINTS ''POST /a2a'' req nxt
          = (PaymentRequired r, [PaymentMiddlewareInvoked])" for nxt
    using assms(7)
    by (simp add: paymentMiddleware_def PAID_ENDPOINTS_def split: option.splits)
  with p assms(4-6) stringMethod_object [OF assms(4)] show ?thesis
    by (auto simp: a2aPost_def Let_def)
qed

text \<open>
  C1, amended. For every POST /a2a request whose body text parses to a value with a string
  method outside the paid set, the payment middleware is never invoked, whatever the bypass
  flag, the proof and the content type. For every POST /a2a request with an accepted
  content type (none, application/json, a +json subtype or text/plain) whose body is not
  blank and parses to a value with method message/send or message/stream, with no valid
  payment proof and the bypass flag unset, the payment middleware is invoked, the task
  runtime is not, and the response has HTTP status 402.
\<close>

theorem a2a_payment_gate:
  "(JSON_parse env (rawBody req) = Some body \<and> stringMethod body = Some m
      \<and> m \<notin> PAID_A2A_METHODS
     \<longrightarrow> PaymentMiddlewareInvoked \<notin> set (snd (a2aPost cfg env req)))
   \<and> (\<not> trim_is_empty (rawBody req)
      \<and> acceptsAsJson (case contentType req of None \<Rightarrow> '''' | Some h \<Rightarrow> h)
      \<and> JSON_parse env (rawBody req) = Some body \<and> stringMethod body = Some m
      \<and> m \<in> PAID_A2A_METHODS \<and> \<not> bypassPayments cfg
      \<and> (case paymentProof req of None \<Rightarrow> True | Some p \<Rightarrow> \<not> verifyPayment env p)
     \<longrightarrow> httpStatus (fst (a2aPost cfg env req)) = 402
         \<and> snd (a2aPost cfg env req) = [PaymentMiddlewareInvoked])"
proof (intro conjI impI)
  assume "JSON_parse env (rawBody req) = Some body \<and> stringMethod body = Some m
      \<and> m \<notin> PAID_A2A_METHODS"
  then show "PaymentMiddlewareInvoked \<notin> set (snd (a2aPost cfg env req))"
    using unpaid_method_not_gated by blast
next
  assume a: "\<not> trim_is_empty (rawBody req)
      \<and> acceptsAsJson (case contentType req of None \<Rightarrow> '''' | Some h \<Rightarrow> h)
      \<and> JSON_parse env (rawBody req) = Some body \<and> stringMethod body = Some m
      \<and> m \<in> PAID_A2A_METHODS \<and> \<not> bypassPayments cfg
      \<and> (case paymentProof req of None \<Rightarrow> True | Some p \<Rightarrow> \<not> verifyPayment env p)"
  then obtain r where "a2aPost cfg env req = (PaymentRequired r, [PaymentMiddlewareInvoked])"
    using paid_method_gated [of req env body m cfg] by blast
  then show "httpStatus (fst (a2aPost cfg env req)) = 402"
    and "snd (a2aPost cfg env req) = [PaymentMiddlewareInvoked]" by simp_all
qed

theorem a2a_payment_gate_witness:
  "JSON_parse ex_env (rawBody ex_get_request) = Some ex_get_body
   \<and> stringMethod ex_get_body = Some ''tasks/get''
   \<and> ''tasks/get'' \<notin> PAID_A2A_METHODS
   \<and> PaymentMiddlewareInvoked \<notin> set (snd (a2aPost ex_cfg ex_env ex_get_request))
   \<and> \<not> trim_is_empty (rawBody ex_send_request)
   \<and> acceptsAsJson (case contentType ex_send_request of None \<Rightarrow> '''' | Some h \<Rightarrow> h)
   \<and> JSON_parse ex_env (rawBody ex_send_request) = Some ex_send_body
   \<and> stringMethod ex_send_body = Some ''message/send''
   \<and> ''message/send'' \<in> PAID_A2A_METHODS \<and> \<not> bypassPayments ex_cfg
   \<and> (case paymentProof ex_send_request of None \<Rightarrow> True | Some p \<Rightarrow> \<not> verifyPayment ex_env p)
   \<and> httpStatus (fst (a2aPost ex_cfg ex_env ex_send_request)) = 402
   \<and> snd (a2aPost ex_cfg ex_env ex_send_request) = [PaymentMiddlewareInvoked]"
proof -
  have g: "JSON_parse ex_env (rawBody ex_get_request) = Some ex_get_body
      \<and> stringMethod ex_get_body = Some ''tasks/get'' \<and> ''tasks/get'' \<notin> PAID_A2A_METHODS"
    using ex_parse_get ex_methods
    by (simp add: ex_env_def ex_get_request_def PAID_A2A_METHODS_def)
  have s: "\<not> trim_is_empty (rawBody ex_send_request)
      \<and> acceptsAsJson (case contentType ex_send_request of None \<Rightarrow> '''' | Some h \<Rightarrow> h)
      \<and> JSON_parse ex_env (rawBody ex_send_request) = Some ex_send_body
      \<and> stringMethod ex_send_body = Some ''message/send''
      \<and> ''message/send'' \<in> PAID_A2A_METHODS \<and> \<not> bypassPayments ex_cfg
      \<and> (case paymentProof ex_send_request of None \<Rightarrow> True
          | Some p \<Rightarrow> \<not> verifyPayment ex_env p)"
    using ex_parse_send ex_methods accepts_application_json
    by (simp add: ex_env_def ex_send_request_def ex_cfg_def PAID_A2A_METHODS_def
        trim_is_empty_def ex_send_raw_def js_space_def)
  from g s
    a2a_payment_gate [of ex_env ex_get_request ex_get_body "''tasks/get''" ex_cfg]
    a2a_payment_gate [of ex_env ex_send_request ex_send_body "''message/send''" ex_cfg]
  show ?thesis by blast
qed

text \<open>
  The claim as first stated fails: a message/send body sent as text/csv, with no proof and
  no bypass, is answered 200 with the JSON-RPC error -32600, not 402; the content type is
  checked before the method is read.
\<close>

theorem a2a_payment_gate_counterexample:
  "JSON_parse ex_env (rawBody ex_csv_send_request) = Some ex_send_body
   \<and> stringMethod ex_send_body = Some ''message/send''
   \<and> \<not> bypassPayments ex_cfg
   \<and> paymentProof ex_csv_send_request = None
   \<and> a2aPost ex_cfg ex_env ex_csv_send_request
       = (JsonResponse 200 (jsonRpcError JNull (- 32600) ''Invalid JSON-RPC Request.''), [])
   \<and> httpStatus (fst (a2aPost ex_cfg ex_env ex_csv_send_request)) \<noteq> 402"
proof -
  have r: "a2aPost ex_cfg ex_env ex_csv_send_request
       = (JsonResponse 200 (jsonRpcError JNull (- 32600) ''Invalid JSON-RPC Request.''), [])"
    using rejects_text_csv
    by (simp add: a2aPost_def parseA2AJsonBody_def ex_csv_send_request_def acceptsAsJson_def
        trim_is_empty_def ex_send_raw_def js_space_def)
  show ?thesis
    using ex_parse_send ex_methods r
    by (simp add: ex_env_def ex_csv_send_request_def ex_cfg_def)
qed

lemma rejected_content_type:
  assumes "\<not> trim_is_empty (rawBody req)" "contentType req = Some h" "h \<noteq> ''''"
    "\<not> matches re_application_json h" "\<not> matches re_text_plain h"
  shows "a2aPost cfg env req
       = (JsonResponse 200 (jsonRpcError JNull (- 32600) ''Invalid JSON-RPC Request.''), [])"
  using assms by (simp add: a2aPost_def parseA2AJsonBody_def acceptsAsJson_def)

lemma unparseable_body:
  assumes "\<not> trim_is_empty (rawBody req)"
    "acceptsAsJson (case contentType req of None \<Rightarrow> '''' | Some h \<Rightarrow> h)"
    "JSON_parse env (rawBody req) = None"
  shows "a2aPost cfg env req = (JsonResponse 200 (jsonRpcError JNull (- 32700) ''Parse error''), [])"
  using assms by (simp add: a2aPost_def parseA2AJsonBody_def)

lemma blank_body:
  assumes "trim_is_empty (rawBody req)"
  shows "a2aPost cfg env req
       = (JsonResponse 200 (jsonRpcError JNull (- 32600) ''Invalid JSON-RPC Request.''), [])"
  using assms by (simp add: a2aPost_def parseA2AJsonBody_def a2aRoute_def parseJsonRpcRequest_def)

text \<open>
  C6, amended. For every POST /a2a request whose body is not blank (not made of white space
  only): if a Content-Type header is present, is not empty and matches neither the pattern
  for application/json and its +json subtypes nor the pattern for text/plain (text/csv is
  such a value), the response is the JSON-RPC error -32600 whatever the payload; if the
  content type is accepted (a missing or empty header is) and the body text is not valid
  JSON, the response is the JSON-RPC error -32700. A blank body is answered with the
  JSON-RPC error -32600 whatever the content type.
\<close>

theorem a2a_malformed_body:
  "(\<not> trim_is_empty (rawBody req) \<and> contentType req = Some h \<and> h \<noteq> ''''
      \<and> \<not> matches re_application_json h \<and> \<not> matches re_text_plain h
     \<longrightarrow> a2aPost cfg env req
         = (JsonResponse 200 (jsonRpcError JNull (- 32600) ''Invalid JSON-RPC Request.''), []))
   \<and> (\<not> trim_is_empty (rawBody req)
      \<and> acceptsAsJson (case contentType req of None \<Rightarrow> '''' | Some h \<Rightarrow> h)
      \<and> JSON_parse env (rawBody req) = None
     \<longrightarrow> a2aPost cfg env req
         = (JsonResponse 200 (jsonRpcError JNull (- 32700) ''Parse error''), []))
   \<and> (trim_is_empty (rawBody req)
     \<longrightarrow> a2aPost cfg env req
         = (JsonResponse 200 (jsonRpcError JNull (- 32600) ''Invalid JSON-RPC Request.''), []))"
  using rejected_content_type [of req h cfg env] unparseable_body [of req env cfg]
    blank_body [of req cfg env]
  by blast

theorem a2a_malformed_body_witness:
  "\<not> trim_is_empty (rawBody ex_csv_request) \<and> contentType ex_csv_request = Some ''text/csv''
   \<and> ''text/csv'' \<noteq> ''''
   \<and> \<not> matches re_application_json ''text/csv'' \<and> \<not> matches re_text_plain ''text/csv''
   \<and> a2aPost ex_cfg ex_env ex_csv_request
       = (JsonResponse 200 (jsonRpcError JNull (- 32600) ''Invalid JSON-RPC Request.''), [])
   \<and> \<not> trim_is_empty (rawBody ex_broken_request)
   \<and> acceptsAsJson (case contentType ex_broken_request of None \<Rightarrow> '''' | Some h \<Rightarrow> h)
   \<and> JSON_parse ex_env (rawBody ex_broken_request) = None
   \<and> a2aPost ex_cfg ex_env ex_broken_request
       = (JsonResponse 200 (jsonRpcError JNull (- 32700) ''Parse error''), [])
   \<and> trim_is_empty (rawBody ex_space_request)
   \<and> a2aPost ex_cfg ex_env ex_space_request
       = (JsonResponse 200 (jsonRpcError JNull (- 32600) ''Invalid JSON-RPC Request.''), [])"
proof -
  have c: "\<not> trim_is_empty (rawBody ex_csv_request)
      \<and> contentType ex_csv_request = Some ''text/csv'' \<and> ''text/csv'' \<noteq> ''''
      \<and> \<not> matches re_application_json ''text/csv'' \<and> \<not> matches re_text_plain ''text/csv''"
    using rejects_text_csv by (simp add: ex_csv_request_def trim_is_empty_def js_space_def)
  have b: "\<not> trim_is_empty (rawBody ex_broken_request)
      \<and> acceptsAsJson (case contentType ex_broken_request of None \<Rightarrow> '''' | Some h \<Rightarrow> h)
      \<and> JSON_parse ex_env (rawBody ex_broken_request) = None"
    using accepts_application_json ex_parse_other
    by (simp add: ex_broken_request_def ex_env_def trim_is_empty_def js_space_def)
  have s: "trim_is_empty (rawBody ex_space_request)"
    by (simp add: ex_space_request_def trim_is_empty_def js_space_def)
  from c b s
    a2a_malformed_body [of ex_csv_request "''text/csv''" ex_cfg ex_env]
    a2a_malformed_body [of ex_broken_request "''text/csv''" ex_cfg ex_env]
    a2a_malformed_body [of ex_space_request "''text/csv''" ex_cfg ex_env]
  show ?thesis by blast
qed

text \<open>
  The claim as first stated fails twice. A body of one space under application/json is not
  empty and is no JSON text, yet the answer is the error -32600, not -32700: a blank body
  is never handed to the parser. And a request with no Content-Type header is accepted: a
  valid message/send body then reaches the payment gate and is answered 402, not -32600.
\<close>

theorem a2a_malformed_body_counterexample:
  "rawBody ex_space_request \<noteq> ''''
   \<and> contentType ex_space_request = Some ''application/json''
   \<and> JSON_parse ex_env (rawBody ex_space_request) = None
   \<and> a2aPost ex_cfg ex_env ex_space_request
       \<noteq> (JsonResponse 200 (jsonRpcError JNull (- 32700) ''Parse error''), [])
   \<and> a2aPost ex_cfg ex_env ex_space_request
       = (JsonResponse 200 (jsonRpcError JNull (- 32600) ''Invalid JSON-RPC Request.''), [])
   \<and> rawBody ex_untyped_send_request \<noteq> ''''
   \<and> contentType ex_untyped_send_request = None
   \<and> a2aPost ex_cfg ex_env ex_untyped_send_request
       \<noteq> (JsonResponse 200 (jsonRpcError JNull (- 32600) ''Invalid JSON-RPC Request.''), [])
   \<and> httpStatus (fst (a2aPost ex_cfg ex_env ex_untyped_send_request)) = 402"
proof -
  have s: "a2aPost ex_cfg ex_env ex_space_request
       = (JsonResponse 200 (jsonRpcError JNull (- 32600) ''Invalid JSON-RPC Request.''), [])"
    by (simp add: a2aPost_def parseA2AJsonBody_def a2aRoute_def parseJsonRpcRequest_def
        ex_space_request_def trim_is_empty_def js_space_def)
  have "parseA2AJsonBody ex_env ex_untyped_send_request = Inr ex_send_body"
    using ex_parse_send
    by (simp add: parseA2AJsonBody_def ex_untyped_send_request_def ex_env_def acceptsAsJson_def
        trim_is_empty_def ex_send_raw_def js_space_def)
  then have u: "\<exists>r. a2aPost ex_cfg ex_env ex_untyped_send_request
       = (PaymentRequired r, [PaymentMiddlewareInvoked])"
    by (simp add: a2aPost_def Let_def ex_send_body_def stringMethod_def ex_cfg_def
        PAID_A2A_METHODS_def paymentMiddleware_def PAID_ENDPOINTS_def
        ex_untyped_send_request_def)
  have j: "jsonRpcError JNull (- 32600) ''Invalid JSON-RPC Request.''
       \<noteq> jsonRpcError JNull (- 32700) ''Parse error''"
    by (simp add: jsonRpcError_def)
  show ?thesis
    using s u j ex_parse_other
    by (auto simp: ex_space_request_def ex_untyped_send_request_def ex_env_def ex_send_raw_def)
qed

section \<open>Properties of registration-file resolution\<close>









lemmas ex_world_eval =
  ex_world_def ex_getTokenURI_def ex_fetch_def ex_decodeBase64_def ex_parseJson_def
  ex_inline_uri_def ex_inline_text_def ex_broken_uri_def


lemma data_uri_fetchUrls: "dataUriPayload uri = Some payload \<Longrightarrow> fetchUrls uri = [uri]"
  by (cases uri) (simp_all add: dataUriPayload_def fetchUrls_def startsWith_def Let_def
      split: if_splits)

lemma single_candidate:
  "fetchLoop w s [url] =
     (case fetch w url of
        NoResponse \<Rightarrow> Inl (failedToFetch 502)
      | Response st body \<Rightarrow>
          if ok st then (case body of Inl t \<Rightarrow> Inl (Thrown t) | Inr d \<Rightarrow> Inr d)
          else Inl (failedToFetch st),
      [Fetched url])"
  by (simp split: fetched.splits)

lemma endpointError_404:
  "apiStatus (endpointError e f :: 'a apiResponse)
     = (if (\<exists>m. f = RegistrationFileError m 404) then 404 else 500)"
  by (auto simp: endpointError_def split: failure.splits thrown.splits)

lemma inline_document:
  assumes "getTokenURI w chain agentId = Inr uri" "dataUriPayload uri = Some payload"
    "parseJson w (decodeBase64 w payload) = Some doc" "truthy doc"
  shows "fetchRegistrationFile w chain agentId = (Inr doc, [TokenURIRead chain agentId])"
  using assms by (simp add: fetchRegistrationFile_def parseDataUri_def)

lemma inline_failure:
  assumes "getTokenURI w chain agentId = Inr uri" "dataUriPayload uri = Some payload"
    "case parseJson w (decodeBase64 w payload) of None \<Rightarrow> True | Some v \<Rightarrow> \<not> truthy v"
  shows "fetchRegistrationFile w chain agentId =
     (case fetch w uri of
        NoResponse \<Rightarrow> Inl (failedToFetch 502)
      | Response st body \<Rightarrow>
          if ok st then (case body of Inl t \<Rightarrow> Inl (Thrown t) | Inr d \<Rightarrow> Inr d)
          else Inl (failedToFetch st),
      [TokenURIRead chain agentId, Fetched uri])"
proof -
  from assms(2,3) have "\<not> truthy (parseDataUri w uri)"
    by (simp add: parseDataUri_def split: option.splits)
  with assms(1) data_uri_fetchUrls [OF assms(2)] show ?thesis
    by (simp add: fetchRegistrationFile_def Let_def single_candidate del: fetchLoop.simps)
qed

text \<open>
  C4, amended. When the token URI is a data:application/json;base64 URI: if decoding and
  parsing succeed and give a truthy value (any JSON value but null, false, 0 and the
  empty string), resolution returns that value and fetches nothing. If decoding or
  parsing fails (or gives a falsy value), resolution goes on as for any other URI: it
  fetches the URI itself, its only candidate, and the outcome is that fetch's. The route
  then answers 404 only if the fetch was answered with status 404; with no response, any
  other failing status, or an ok response whose body does not parse, it answers 500.
\<close>

theorem inline_resolution:
  assumes "getTokenURI w chain agentId = Inr uri" "dataUriPayload uri = Some payload"
  shows
    "(parseJson w (decodeBase64 w payload) = Some doc \<and> truthy doc
       \<longrightarrow> fetchRegistrationFile w chain agentId = (Inr doc, [TokenURIRead chain agentId]))
     \<and> ((case parseJson w (decodeBase64 w payload) of None \<Rightarrow> True | Some v \<Rightarrow> \<not> truthy v)
       \<longrightarrow> fetchRegistrationFile w chain agentId =
             (case fetch w uri of
                NoResponse \<Rightarrow> Inl (failedToFetch 502)
              | Response st body \<Rightarrow>
                  if ok st then (case body of Inl t \<Rightarrow> Inl (Thrown t) | Inr d \<Rightarrow> Inr d)
                  else Inl (failedToFetch st),
              [TokenURIRead chain agentId, Fetched uri])
          \<and> (\<forall>f. fst (fetchRegistrationFile w chain agentId) = Inl f
                \<longrightarrow> apiStatus (endpointError e f :: unit apiResponse)
                      = (if (\<exists>body. fetch w uri = Response 404 body) then 404 else 500)))"
proof (intro conjI impI allI)
  assume "parseJson w (decodeBase64 w payload) = Some doc \<and> truthy doc"
  with assms show "fetchRegistrationFile w chain agentId = (Inr doc, [TokenURIRead chain agentId])"
    using inline_document by blast
next
  assume a: "case parseJson w (decodeBase64 w payload) of None \<Rightarrow> True | Some v \<Rightarrow> \<not> truthy v"
  note r = inline_failure [OF assms a]
  show "fetchRegistrationFile w chain agentId =
     (case fetch w uri of
        NoResponse \<Rightarrow> Inl (failedToFetch 502)
      | Response st body \<Rightarrow>
          if ok st then (case body of Inl t \<Rightarrow> Inl (Thrown t) | Inr d \<Rightarrow> Inr d)
          else Inl (failedToFetch st),
      [TokenURIRead chain agentId, Fetched uri])"
    by (rule r)
  fix f
  assume "fst (fetchRegistrationFile w chain agentId) = Inl f"
  then show "apiStatus (endpointError e f :: unit apiResponse)
      = (if (\<exists>body. fetch w uri = Response 404 body) then 404 else 500)"
    unfolding r endpointError_404
    by (auto simp: failedToFetch_def ok_def split: fetched.splits if_splits sum.splits)
qed

theorem inline_resolution_witness:
  "getTokenURI ex_world ''base'' 2 = Inr ex_inline_uri
   \<and> dataUriPayload ex_inline_uri
       = Some ''eyJuYW1lIjoiQWdlbnQgVHdvIiwiZGVzY3JpcHRpb24iOiJJbmxpbmUifQ==''
   \<and> parseJson ex_world
        (decodeBase64 ex_world ''eyJuYW1lIjoiQWdlbnQgVHdvIiwiZGVzY3JpcHRpb24iOiJJbmxpbmUifQ=='')
       = Some ex_inline_doc
   \<and> truthy ex_inline_doc
   \<and> fetchRegistrationFile ex_world ''base'' 2 = (Inr ex_inline_doc, [TokenURIRead ''base'' 2])
   \<and> getTokenURI ex_world ''base'' 3 = Inr ex_broken_uri
   \<and> dataUriPayload ex_broken_uri = Some ''e29vcHM=''
   \<and> parseJson ex_world (decodeBase64 ex_world ''e29vcHM='') = None
   \<and> fetchRegistrationFile ex_world ''base'' 3
       = (Inl (Thrown (ErrorObject ''Unexpected token o in JSON at position 1'')),
          [TokenURIRead ''base'' 3, Fetched ex_broken_uri])
   \<and> apiStatus (endpointError ''Failed to fetch agent profile''
         (Thrown (ErrorObject ''Unexpected token o in JSON at position 1'')) :: unit apiResponse)
       = 500"
proof -
  have t2: "getTokenURI ex_world ''base'' 2 = Inr ex_inline_uri"
    and t3: "getTokenURI ex_world ''base'' 3 = Inr ex_broken_uri"
    by (simp_all add: ex_world_def ex_getTokenURI_def)
  have p2: "dataUriPayload ex_inline_uri
       = Some ''eyJuYW1lIjoiQWdlbnQgVHdvIiwiZGVzY3JpcHRpb24iOiJJbmxpbmUifQ==''"
    and p3: "dataUriPayload ex_broken_uri = Some ''e29vcHM=''"
    by (simp_all add: dataUriPayload_def ex_inline_uri_def ex_broken_uri_def lineTerminator_def)
  have j2: "parseJson ex_world
        (decodeBase64 ex_world ''eyJuYW1lIjoiQWdlbnQgVHdvIiwiZGVzY3JpcHRpb24iOiJJbmxpbmUifQ=='')
       = Some ex_inline_doc"
    and j3: "parseJson ex_world (decodeBase64 ex_world ''e29vcHM='') = None"
    by (simp_all add: ex_world_def ex_decodeBase64_def ex_parseJson_def ex_inline_text_def)
  have tr: "truthy ex_inline_doc" by (simp add: ex_inline_doc_def)
  have f3: "fetch ex_world ex_broken_uri
      = Response 200 (Inl (ErrorObject ''Unexpected token o in JSON at position 1''))"
    by (simp add: ex_world_def ex_fetch_def ex_broken_uri_def)
  have k: "ok 200" by (simp add: ok_def)
  note a = inline_resolution [OF t2 p2, of ex_inline_doc "''Failed to fetch agent profile''"]
  note b = inline_resolution [OF t3 p3, of ex_inline_doc "''Failed to fetch agent profile''"]
  from a j2 tr have r2:
    "fetchRegistrationFile ex_world ''base'' 2 = (Inr ex_inline_doc, [TokenURIRead ''base'' 2])"
    by blast
  from b j3 have r3: "fetchRegistrationFile ex_world ''base'' 3
       = (Inl (Thrown (ErrorObject ''Unexpected token o in JSON at position 1'')),
          [TokenURIRead ''base'' 3, Fetched ex_broken_uri])"
    by (simp add: f3 k)
  from b j3 r3 have s3: "apiStatus (endpointError ''Failed to fetch agent profile''
         (Thrown (ErrorObject ''Unexpected token o in JSON at position 1'')) :: unit apiResponse)
       = 500"
    by (simp add: f3)
  from t2 t3 p2 p3 j2 j3 tr r2 r3 s3 show ?thesis by blast
qed

text \<open>
  The claim as first stated fails: agent 3 carries an inline payload that decodes to text
  that is no JSON. Resolution does not classify this as not found: it fetches the URI,
  and the route answers 500, not 404.
\<close>

theorem inline_resolution_counterexample:
  "getTokenURI ex_world ''base'' 3 = Inr ex_broken_uri
   \<and> dataUriPayload ex_broken_uri = Some ''e29vcHM=''
   \<and> parseJson ex_world (decodeBase64 ex_world ''e29vcHM='') = None
   \<and> snd (fetchRegistrationFile ex_world ''base'' 3)
       = [TokenURIRead ''base'' 3, Fetched ex_broken_uri]
   \<and> fst (fetchRegistrationFile ex_world ''base'' 3)
       = Inl (Thrown (ErrorObject ''Unexpected token o in JSON at position 1''))
   \<and> apiStatus (endpointError ''Failed to fetch agent profile''
         (Thrown (ErrorObject ''Unexpected token o in JSON at position 1'')) :: unit apiResponse)
       \<noteq> 404"
proof -
  have "fetchRegistrationFile ex_world ''base'' 3
       = (Inl (Thrown (ErrorObject ''Unexpected token o in JSON at position 1'')),
          [TokenURIRead ''base'' 3, Fetched ex_broken_uri])"
    by (simp add: fetchRegistrationFile_def parseDataUri_def dataUriPayload_def fetchUrls_def
        startsWith_def ok_def lineTerminator_def ex_world_eval)
  then show ?thesis
    by (simp add: endpointError_def dataUriPayload_def lineTerminator_def ex_world_eval)
qed

section \<open>Properties of the API routes\<close>

lemma agentIdSchema_rejects:
  "\<not> matches re_digits s \<Longrightarrow> agentIdSchema (Some (JStr s)) = None"
  by (simp add: agentIdSchema_def)

lemma scoreInputSchema_rejects:
  assumes "map_of props ''agentId'' = Some (JStr s)" "\<not> matches re_digits s"
  shows "\<exists>names. scoreInputSchema (Some (JObj props)) = Inl (Flattened 0 names)
           \<and> ''agentId'' \<in> set names"
  using assms
  by (auto simp: scoreInputSchema_def agentIdSchema_def failedFields_def split: option.splits)

lemma validateInputSchema_rejects:
  assumes "map_of props ''agentId'' = Some (JStr s)" "\<not> matches re_digits s"
  shows "\<exists>names. validateInputSchema (Some (JObj props)) = Inl (Flattened 0 names)
           \<and> ''agentId'' \<in> set names"
  using assms
  by (auto simp: validateInputSchema_def agentIdSchema_def failedFields_def split: option.splits)

text \<open>
  C7. For every agent-id string that does not match the pattern of decimal digits (by
  \<open>digits_pattern\<close>: that is empty or has a character that is no digit): the GET
  profile route, given the string as its path parameter, answers 400 with the flattened
  validation error (one form-level error, the parameter being the whole input) and makes
  no call at all; the profile, score and validate invoke routes, given a body whose input
  has the string as its agentId, answer 400 with a flattened validation error that names
  the field agentId, and make no call at all. No call means no registry read, no fetch and
  no probe.
\<close>

theorem invalid_agent_id_rejected:
  assumes "\<not> matches re_digits s"
  shows
    "getProfile w s chainQuery = (BadRequest ''Invalid agentId'' (Flattened 1 []), [])
     \<and> apiStatus (fst (getProfile w s chainQuery)) = 400
     \<and> (map_of envelope ''input'' = Some (JObj props)
          \<and> map_of props ''agentId'' = Some (JStr s)
        \<longrightarrow> (\<exists>names. profileInvoke w (JObj envelope)
                        = (BadRequest ''Invalid input'' (Flattened 0 names), [])
                    \<and> ''agentId'' \<in> set names)
            \<and> (\<exists>names. scoreInvoke w (JObj envelope)
                        = (BadRequest ''Invalid input'' (Flattened 0 names), [])
                    \<and> ''agentId'' \<in> set names)
            \<and> (\<exists>names. validateInvoke w (JObj envelope)
                        = (BadRequest ''Invalid input'' (Flattened 0 names), [])
                    \<and> ''agentId'' \<in> set names)
            \<and> apiStatus (fst (profileInvoke w (JObj envelope))) = 400
            \<and> apiStatus (fst (scoreInvoke w (JObj envelope))) = 400
            \<and> apiStatus (fst (validateInvoke w (JObj envelope))) = 400)"
proof -
  have g: "getProfile w s chainQuery = (BadRequest ''Invalid agentId'' (Flattened 1 []), [])"
    using assms by (simp add: getProfile_def parseAgentIdParam_def Let_def)
  have i: "(\<exists>names. profileInvoke w (JObj envelope)
                        = (BadRequest ''Invalid input'' (Flattened 0 names), [])
                    \<and> ''agentId'' \<in> set names)
            \<and> (\<exists>names. scoreInvoke w (JObj envelope)
                        = (BadRequest ''Invalid input'' (Flattened 0 names), [])
                    \<and> ''agentId'' \<in> set names)
            \<and> (\<exists>names. validateInvoke w (JObj envelope)
                        = (BadRequest ''Invalid input'' (Flattened 0 names), [])
                    \<and> ''agentId'' \<in> set names)"
    if "map_of envelope ''input'' = Some (JObj props)"
      "map_of props ''agentId'' = Some (JStr s)"
  proof -
    from scoreInputSchema_rejects [OF that(2) assms] obtain names where
      n: "scoreInputSchema (Some (JObj props)) = Inl (Flattened 0 names)"
        "''agentId'' \<in> set names" by blast
    from validateInputSchema_rejects [OF that(2) assms] obtain names' where
      n': "validateInputSchema (Some (JObj props)) = Inl (Flattened 0 names')"
        "''agentId'' \<in> set names'" by blast
    from that(1) n n' show ?thesis
      by (simp add: profileInvoke_def scoreInvoke_def validateInvoke_def
          invokeEnvelopeSchema_def profileInputSchema_def)
  qed
  show ?thesis
  proof (intro conjI impI)
    show "getProfile w s chainQuery = (BadRequest ''Invalid agentId'' (Flattened 1 []), [])"
      by (rule g)
    show "apiStatus (fst (getProfile w s chainQuery)) = 400" by (simp add: g)
  next
    assume a: "map_of envelope ''input'' = Some (JObj props)
        \<and> map_of props ''agentId'' = Some (JStr s)"
    then have b: "map_of envelope ''input'' = Some (JObj props)"
      "map_of props ''agentId'' = Some (JStr s)" by simp_all
    from i [OF b] show "\<exists>names. profileInvoke w (JObj envelope)
                        = (BadRequest ''Invalid input'' (Flattened 0 names), [])
                    \<and> ''agentId'' \<in> set names" by blast
    from i [OF b] show "\<exists>names. scoreInvoke w (JObj envelope)
                        = (BadRequest ''Invalid input'' (Flattened 0 names), [])
                    \<and> ''agentId'' \<in> set names" by blast
    from i [OF b] show "\<exists>names. validateInvoke w (JObj envelope)
                        = (BadRequest ''Invalid input'' (Flattened 0 names), [])
                    \<and> ''agentId'' \<in> set names" by blast
    from i [OF b] show "apiStatus (fst (profileInvoke w (JObj envelope))) = 400" by auto
    from i [OF b] show "apiStatus (fst (scoreInvoke w (JObj envelope))) = 400" by auto
    from i [OF b] show "apiStatus (fst (validateInvoke w (JObj envelope))) = 400" by auto
  qed
qed

theorem invalid_agent_id_rejected_witness:
  "\<not> matches re_digits ''12a''
   \<and> getProfile ex_world ''12a'' None = (BadRequest ''Invalid agentId'' (Flattened 1 []), [])
   \<and> map_of [(''input'', JObj [(''agentId'', JStr ''12a'')])] ''input''
       = Some (JObj [(''agentId'', JStr ''12a'')])
   \<and> map_of [(''agentId'', JStr ''12a'')] ''agentId'' = Some (JStr ''12a'')
   \<and> apiStatus (fst (profileInvoke ex_world ex_bad_id_body)) = 400
   \<and> snd (profileInvoke ex_world ex_bad_id_body) = []
   \<and> apiStatus (fst (scoreInvoke ex_world ex_bad_id_body)) = 400
   \<and> snd (scoreInvoke ex_world ex_bad_id_body) = []
   \<and> apiStatus (fst (validateInvoke ex_world ex_bad_id_body)) = 400
   \<and> snd (validateInvoke ex_world ex_bad_id_body) = []"
proof -
  have m: "\<not> matches re_digits ''12a''"
    by (simp add: re_digits_def Plus_def digit_def)
  have e: "map_of [(''input'', JObj [(''agentId'', JStr ''12a'')])] ''input''
       = Some (JObj [(''agentId'', JStr ''12a'')])"
    and f: "map_of [(''agentId'', JStr ''12a'')] ''agentId'' = Some (JStr ''12a'')"
    by simp_all
  note t = invalid_agent_id_rejected [OF m, of ex_world None
      "[(''input'', JObj [(''agentId'', JStr ''12a'')])]" "[(''agentId'', JStr ''12a'')]"]
  from t e f have
    "(\<exists>names. profileInvoke ex_world ex_bad_id_body
                = (BadRequest ''Invalid input'' (Flattened 0 names), []))
     \<and> (\<exists>names. scoreInvoke ex_world ex_bad_id_body
                = (BadRequest ''Invalid input'' (Flattened 0 names), []))
     \<and> (\<exists>names. validateInvoke ex_world ex_bad_id_body
                = (BadRequest ''Invalid input'' (Flattened 0 names), []))"
    unfolding ex_bad_id_body_def by blast
  then have r: "apiStatus (fst (profileInvoke ex_world ex_bad_id_body)) = 400
      \<and> snd (profileInvoke ex_world ex_bad_id_body) = []
      \<and> apiStatus (fst (scoreInvoke ex_world ex_bad_id_body)) = 400
      \<and> snd (scoreInvoke ex_world ex_bad_id_body) = []
      \<and> apiStatus (fst (validateInvoke ex_world ex_bad_id_body)) = 400
      \<and> snd (validateInvoke ex_world ex_bad_id_body) = []"
    by auto
  from t have g: "getProfile ex_world ''12a'' None
      = (BadRequest ''Invalid agentId'' (Flattened 1 []), [])" by blast
  from m e f g r show ?thesis by blast
qed

section \<open>Properties of the validate route\<close>

subsection \<open>What each check leaves untouched\<close>

lemma probeEndpoint_frame:
  "walletStatus (fst (probeEndpoint w ep r)) = walletStatus r
   \<and> attestations (fst (probeEndpoint w ep r)) = attestations r
   \<and> overallVerdict (fst (probeEndpoint w ep r)) = overallVerdict r"
  by (simp add: probeEndpoint_def split: probed.splits)

lemma probeEndpoints_frame:
  "walletStatus (fst (probeEndpoints w eps r)) = walletStatus r
   \<and> attestations (fst (probeEndpoints w eps r)) = attestations r
   \<and> overallVerdict (fst (probeEndpoints w eps r)) = overallVerdict r"
proof (induction eps arbitrary: r)
  case Nil
  then show ?case by simp
next
  case (Cons ep eps)
  from Cons [of "fst (probeEndpoint w ep r)"] probeEndpoint_frame [of w ep r]
  show ?case by (simp add: split_beta)
qed

lemma checkEndpoints_frame:
  "walletStatus (fst (checkEndpoints w checks reg r)) = walletStatus r
   \<and> attestations (fst (checkEndpoints w checks reg r)) = attestations r
   \<and> overallVerdict (fst (checkEndpoints w checks reg r)) = overallVerdict r"
  using probeEndpoints_frame by (simp add: checkEndpoints_def split: option.splits)

lemma checkWallet_frame:
  "endpointStatus (fst (checkWallet w checks c a owner r)) = endpointStatus r
   \<and> attestations (fst (checkWallet w checks c a owner r)) = attestations r
   \<and> overallVerdict (fst (checkWallet w checks c a owner r)) = overallVerdict r"
  by (simp add: checkWallet_def Let_def)

lemma attest_frame:
  "endpointStatus (fst (attest w c a t r)) = endpointStatus r
   \<and> walletStatus (fst (attest w c a t r)) = walletStatus r
   \<and> issues (fst (attest w c a t r)) = issues r
   \<and> overallVerdict (fst (attest w c a t r)) = overallVerdict r"
  by (simp add: attest_def Let_def split_beta)

lemma attestAll_frame:
  "endpointStatus (fst (attestAll w c a ts r)) = endpointStatus r
   \<and> walletStatus (fst (attestAll w c a ts r)) = walletStatus r
   \<and> issues (fst (attestAll w c a ts r)) = issues r
   \<and> overallVerdict (fst (attestAll w c a ts r)) = overallVerdict r"
proof (induction ts arbitrary: r)
  case Nil
  then show ?case by simp
next
  case (Cons t ts)
  from Cons [of "fst (attest w c a t r)"] attest_frame [of w c a t r]
  show ?case by (simp add: split_beta)
qed

lemma checkAttestations_frame:
  "endpointStatus (fst (checkAttestations w checks c a reg r)) = endpointStatus r
   \<and> walletStatus (fst (checkAttestations w checks c a reg r)) = walletStatus r
   \<and> issues (fst (checkAttestations w checks c a reg r)) = issues r
   \<and> overallVerdict (fst (checkAttestations w checks c a reg r)) = overallVerdict r"
  using attestAll_frame by (simp add: checkAttestations_def split: option.splits)

lemma determineVerdict_frame:
  "endpointStatus (determineVerdict r) = endpointStatus r
   \<and> walletStatus (determineVerdict r) = walletStatus r
   \<and> attestations (determineVerdict r) = attestations r
   \<and> issues (determineVerdict r) = issues r"
  by (simp add: determineVerdict_def Let_def)

subsection \<open>A check that was not requested does nothing\<close>

lemma checkEndpoints_skipped:
  "''endpoints'' \<notin> set checks \<Longrightarrow> checkEndpoints w checks reg r = (r, [])"
  by (simp add: checkEndpoints_def split: option.splits)

lemma checkWallet_skipped:
  "''wallet'' \<notin> set checks \<Longrightarrow> checkWallet w checks c a owner r = (r, [])"
  by (simp add: checkWallet_def)

lemma checkAttestations_skipped:
  "''attestations'' \<notin> set checks \<Longrightarrow> checkAttestations w checks c a reg r = (r, [])"
  by (simp add: checkAttestations_def split: option.splits)

subsection \<open>Each check reads only its own collaborator\<close>

lemma probeEndpoints_reads:
  "probeEndpoints (w\<lparr>getMetadata := m\<rparr>) eps r = probeEndpoints w eps r
   \<and> probeEndpoints (w\<lparr>readAllFeedback := f\<rparr>) eps r = probeEndpoints w eps r"
  by (induction eps arbitrary: r) (simp_all add: probeEndpoint_def)

lemma checkEndpoints_reads:
  "checkEndpoints (w\<lparr>getMetadata := m\<rparr>) checks reg r = checkEndpoints w checks reg r
   \<and> checkEndpoints (w\<lparr>readAllFeedback := f\<rparr>) checks reg r = checkEndpoints w checks reg r"
  by (simp add: checkEndpoints_def probeEndpoints_reads split: option.splits)

lemma checkWallet_reads:
  "checkWallet (w\<lparr>probe := p\<rparr>) checks c a owner r = checkWallet w checks c a owner r
   \<and> checkWallet (w\<lparr>readAllFeedback := f\<rparr>) checks c a owner r
       = checkWallet w checks c a owner r"
  by (simp add: checkWallet_def)

lemma attestAll_reads:
  "attestAll (w\<lparr>probe := p\<rparr>) c a ts r = attestAll w c a ts r
   \<and> attestAll (w\<lparr>getMetadata := m\<rparr>) c a ts r = attestAll w c a ts r"
  by (induction ts arbitrary: r) (simp_all add: attest_def readFeedbackSafe_def)

lemma checkAttestations_reads:
  "checkAttestations (w\<lparr>probe := p\<rparr>) checks c a reg r = checkAttestations w checks c a reg r
   \<and> checkAttestations (w\<lparr>getMetadata := m\<rparr>) checks c a reg r
       = checkAttestations w checks c a reg r"
  by (simp add: checkAttestations_def attestAll_reads split: option.splits)

subsection \<open>The verdict\<close>

lemma all_reachable:
  "(length (filter P xs) = length xs) = list_all P xs"
proof (induction xs)
  case Nil
  then show ?case by simp
next
  case (Cons x xs)
  have "length (filter P xs) \<le> length xs" by simp
  then have "length (filter P xs) \<noteq> Suc (length xs)" by linarith
  with Cons show ?case by auto
qed

lemma some_reachable: "(length (filter P xs) > 0) = list_ex P xs"
  by (induction xs) auto

lemma list_all_map: "list_all P (map f xs) = list_all (\<lambda>x. P (f x)) xs"
  by (induction xs) simp_all

lemma list_ex_map: "list_ex P (map f xs) = list_ex (\<lambda>x. P (f x)) xs"
  by (induction xs) simp_all

lemma determineVerdict_spec:
  "overallVerdict (determineVerdict r)
     = spec_overallVerdict (issues r) (map es_status (endpointStatus r))
         (ws_valid (walletStatus r))"
proof -
  have a: "(length (filter (\<lambda>e. es_status e = Reachable) (endpointStatus r))
            = length (endpointStatus r))
         = list_all (\<lambda>s. s = Reachable) (map es_status (endpointStatus r))"
    unfolding all_reachable list_all_map ..
  have b: "(length (filter (\<lambda>e. es_status e = Reachable) (endpointStatus r)) > 0)
         = list_ex (\<lambda>s. s = Reachable) (map es_status (endpointStatus r))"
    unfolding some_reachable list_ex_map ..
  show ?thesis
    unfolding determineVerdict_def spec_overallVerdict_def Let_def
    using a b by simp
qed




lemma validateInvoke_success:
  assumes "invokeEnvelopeSchema body = Inr input"
    "validateInputSchema input = Inr (agentId, chain, checks)"
    "fst (fetchRegistrationFile w (createClients chain) agentId) = Inr doc"
    "getOwner w (createClients chain) agentId = Inr owner"
  shows "fst (validateInvoke w body)
     = Success \<lparr>vo_agentId = showNat agentId, vo_chain = chain,
                vo_agentName = rf_name (asRegistrationFile doc),
                vo_report = fst (validationOf w checks (createClients chain) agentId
                                   (asRegistrationFile doc) owner)\<rparr>"
  using assms by (simp add: validateInvoke_def Let_def split_beta)

lemmas handler_eval =
  invokeEnvelopeSchema_def validateInputSchema_def scoreInputSchema_def agentIdSchema_def
  chainSchema_def checksSchema_def checkName_def failedFields_def BigInt_def digitValue_def
  DEFAULT_CHAIN_def createClients_def re_digits_def Plus_def digit_def
  fetchRegistrationFile_def parseDataUri_def dataUriPayload_def lineTerminator_def
  fetchUrls_def startsWith_def ok_def asRegistrationFile_def asEndpoint_def asString_def
  stringProperty_def template_def ex_doc_def

lemma ex_validate_input:
  "invokeEnvelopeSchema ex_validate_endpoints_body
     = Inr (Some (JObj [(''agentId'', JStr ''7''), (''checks'', JArr [JStr ''endpoints''])]))
   \<and> validateInputSchema
        (Some (JObj [(''agentId'', JStr ''7''), (''checks'', JArr [JStr ''endpoints''])]))
     = Inr (7, ''base'', [''endpoints''])"
  by (simp add: ex_validate_endpoints_body_def handler_eval)

lemma ex_resolve_7:
  "fetchRegistrationFile ex_world ''base'' 7
     = (Inr ex_doc,
        [TokenURIRead ''base'' 7, Fetched ''https://ipfs.io/ipfs/QmDoc'',
         Fetched ''https://cloudflare-ipfs.com/ipfs/QmDoc''])"
  by (simp add: fetchRegistrationFile_def parseDataUri_def dataUriPayload_def fetchUrls_def
      startsWith_def ok_def ex_world_eval Let_def)

lemma ex_validation_endpoints:
  "fst (validationOf ex_world [''endpoints''] ''base'' 7 (asRegistrationFile ex_doc) ex_owner)
     = \<lparr>endpointStatus =
          [\<lparr>es_name = Some ''A2A'', es_endpoint = Some ''https://one.example/a2a'',
            es_status = Reachable, es_latencyMs = Some 12, es_error = None\<rparr>,
           \<lparr>es_name = Some ''MCP'', es_endpoint = Some ''https://one.example/mcp'',
            es_status = Unreachable, es_latencyMs = None,
            es_error = Some ''Connection failed''\<rparr>],
        walletStatus = \<lparr>ws_address = '''', ws_valid = False, ws_isOwner = False\<rparr>,
        attestations = [],
        overallVerdict = Partial,
        issues = [''Endpoint MCP is unreachable'']\<rparr>"
  by (simp add: validationOf_def checkEndpoints_def checkWallet_def checkAttestations_def
      probeEndpoint_def determineVerdict_def initialReport_def handler_eval ex_world_def
      Let_def)



lemma validationOf_sections:
  "endpointStatus (fst (validationOf w checks c a reg owner))
     = endpointStatus (fst (checkEndpoints w checks reg initialReport))
   \<and> walletStatus (fst (validationOf w checks c a reg owner))
     = walletStatus (fst (checkWallet w checks c a owner
                            (fst (checkEndpoints w checks reg initialReport))))
   \<and> attestations (fst (validationOf w checks c a reg owner))
     = attestations (fst (checkAttestations w checks c a reg
                            (fst (checkWallet w checks c a owner
                                    (fst (checkEndpoints w checks reg initialReport))))))"
  by (simp add: validationOf_def split_beta determineVerdict_frame checkAttestations_frame
      checkWallet_frame)

lemma endpoints_not_requested:
  assumes "''endpoints'' \<notin> set checks"
  shows "endpointStatus (fst (validationOf w checks c a reg owner)) = []"
    and "validationOf (w\<lparr>probe := p\<rparr>) checks c a reg owner = validationOf w checks c a reg owner"
proof -
  show "endpointStatus (fst (validationOf w checks c a reg owner)) = []"
    using assms
    by (simp add: validationOf_sections checkEndpoints_skipped initialReport_def)
  show "validationOf (w\<lparr>probe := p\<rparr>) checks c a reg owner = validationOf w checks c a reg owner"
    using assms
    by (simp add: validationOf_def checkEndpoints_skipped checkWallet_reads
        checkAttestations_reads)
qed

lemma wallet_not_requested:
  assumes "''wallet'' \<notin> set checks"
  shows "walletStatus (fst (validationOf w checks c a reg owner))
       = \<lparr>ws_address = '''', ws_valid = False, ws_isOwner = False\<rparr>"
    and "validationOf (w\<lparr>getMetadata := m\<rparr>) checks c a reg owner'
       = validationOf w checks c a reg owner"
proof -
  show "walletStatus (fst (validationOf w checks c a reg owner))
       = \<lparr>ws_address = '''', ws_valid = False, ws_isOwner = False\<rparr>"
    using assms checkEndpoints_frame [of w checks reg initialReport]
    by (simp add: validationOf_sections checkWallet_skipped initialReport_def)
  show "validationOf (w\<lparr>getMetadata := m\<rparr>) checks c a reg owner'
       = validationOf w checks c a reg owner"
    using assms
    by (simp add: validationOf_def checkWallet_skipped checkEndpoints_reads
        checkAttestations_reads)
qed

lemma attestations_not_requested:
  assumes "''attestations'' \<notin> set checks"
  shows "attestations (fst (validationOf w checks c a reg owner)) = []"
    and "validationOf (w\<lparr>readAllFeedback := f\<rparr>) checks c a reg owner
       = validationOf w checks c a reg owner"
proof -
  show "attestations (fst (validationOf w checks c a reg owner)) = []"
    using assms checkEndpoints_frame [of w checks reg initialReport]
      checkWallet_frame [of w checks c a owner "fst (checkEndpoints w checks reg initialReport)"]
    by (simp add: validationOf_sections checkAttestations_skipped initialReport_def)
  show "validationOf (w\<lparr>readAllFeedback := f\<rparr>) checks c a reg owner
       = validationOf w checks c a reg owner"
    using assms
    by (simp add: validationOf_def checkAttestations_skipped checkEndpoints_reads
        checkWallet_reads)
qed

lemma validationOf_spec:
  "overallVerdict (fst (validationOf w checks c a reg owner))
     = spec_overallVerdict
         (issues (fst (validationOf w checks c a reg owner)))
         (map es_status (endpointStatus (fst (validationOf w checks c a reg owner))))
         (ws_valid (walletStatus (fst (validationOf w checks c a reg owner))))"
  by (simp add: validationOf_def split_beta determineVerdict_spec determineVerdict_frame)

text \<open>
  C8, amended. For every validate request with requested checks S, the overall verdict of
  the report is: validated when the issues list is empty; validated-with-warnings when
  there are issues but every probed endpoint is reachable and the wallet is valid; partial
  when at least one endpoint is reachable or the wallet is valid; failed otherwise. A
  check that is not in S is not run and has no effect on the report or the verdict: the
  report is the same whatever that check would have read. Its section of the returned
  report is not absent, though; it keeps the value it was created with: no endpoint
  entries, no attestation entries, and for the wallet the placeholder with an empty
  address, not valid, not the owner.
\<close>

theorem validation_verdict:
  "overallVerdict (fst (validationOf w checks c a reg owner))
     = spec_overallVerdict
         (issues (fst (validationOf w checks c a reg owner)))
         (map es_status (endpointStatus (fst (validationOf w checks c a reg owner))))
         (ws_valid (walletStatus (fst (validationOf w checks c a reg owner))))
   \<and> (''endpoints'' \<notin> set checks
      \<longrightarrow> endpointStatus (fst (validationOf w checks c a reg owner)) = []
          \<and> validationOf (w\<lparr>probe := p\<rparr>) checks c a reg owner
              = validationOf w checks c a reg owner)
   \<and> (''wallet'' \<notin> set checks
      \<longrightarrow> walletStatus (fst (validationOf w checks c a reg owner))
              = \<lparr>ws_address = '''', ws_valid = False, ws_isOwner = False\<rparr>
          \<and> validationOf (w\<lparr>getMetadata := m\<rparr>) checks c a reg owner'
              = validationOf w checks c a reg owner)
   \<and> (''attestations'' \<notin> set checks
      \<longrightarrow> attestations (fst (validationOf w checks c a reg owner)) = []
          \<and> validationOf (w\<lparr>readAllFeedback := f\<rparr>) checks c a reg owner
              = validationOf w checks c a reg owner)"
proof (intro conjI impI)
  show "overallVerdict (fst (validationOf w checks c a reg owner))
     = spec_overallVerdict
         (issues (fst (validationOf w checks c a reg owner)))
         (map es_status (endpointStatus (fst (validationOf w checks c a reg owner))))
         (ws_valid (walletStatus (fst (validationOf w checks c a reg owner))))"
    by (rule validationOf_spec)
next
  assume "''endpoints'' \<notin> set checks"
  then show "endpointStatus (fst (validationOf w checks c a reg owner)) = []"
    and "validationOf (w\<lparr>probe := p\<rparr>) checks c a reg owner
          = validationOf w checks c a reg owner"
    by (rule endpoints_not_requested)+
next
  assume "''wallet'' \<notin> set checks"
  then show "walletStatus (fst (validationOf w checks c a reg owner))
          = \<lparr>ws_address = [], ws_valid = False, ws_isOwner = False\<rparr>"
    and "validationOf (w\<lparr>getMetadata := m\<rparr>) checks c a reg owner'
          = validationOf w checks c a reg owner"
    by (rule wallet_not_requested)+
next
  assume "''attestations'' \<notin> set checks"
  then show "attestations (fst (validationOf w checks c a reg owner)) = []"
    and "validationOf (w\<lparr>readAllFeedback := f\<rparr>) checks c a reg owner
          = validationOf w checks c a reg owner"
    by (rule attestations_not_requested)+
qed

theorem validation_verdict_witness:
  "''wallet'' \<notin> set [''endpoints''] \<and> ''attestations'' \<notin> set [''endpoints'']
   \<and> ''endpoints'' \<notin> set [''wallet'']
   \<and> overallVerdict
        (fst (validationOf ex_world [''endpoints''] ''base'' 7 (asRegistrationFile ex_doc)
                ex_owner))
       = spec_overallVerdict [''Endpoint MCP is unreachable''] [Reachable, Unreachable] False
   \<and> spec_overallVerdict [''Endpoint MCP is unreachable''] [Reachable, Unreachable] False
       = Partial
   \<and> walletStatus
        (fst (validationOf ex_world [''endpoints''] ''base'' 7 (asRegistrationFile ex_doc)
                ex_owner))
       = \<lparr>ws_address = '''', ws_valid = False, ws_isOwner = False\<rparr>
   \<and> attestations
        (fst (validationOf ex_world [''endpoints''] ''base'' 7 (asRegistrationFile ex_doc)
                ex_owner)) = []
   \<and> validationOf (ex_world\<lparr>getMetadata := (\<lambda>chain agentId key. Inr ''0x00'')\<rparr>)
        [''endpoints''] ''base'' 7 (asRegistrationFile ex_doc) ''0x01''
       = validationOf ex_world [''endpoints''] ''base'' 7 (asRegistrationFile ex_doc) ex_owner
   \<and> endpointStatus
        (fst (validationOf ex_world [''wallet''] ''base'' 7 (asRegistrationFile ex_doc)
                ex_owner)) = []"
proof -
  have n: "''wallet'' \<notin> set [''endpoints'']" "''attestations'' \<notin> set [''endpoints'']"
    "''endpoints'' \<notin> set [''wallet'']" by simp_all
  have s: "spec_overallVerdict [''Endpoint MCP is unreachable''] [Reachable, Unreachable] False
       = Partial"
    by (simp add: spec_overallVerdict_def)
  note a = validation_verdict [where w = ex_world and checks = "[''endpoints'']"
      and c = "''base''" and a = 7 and reg = "asRegistrationFile ex_doc" and owner = ex_owner
      and m = "\<lambda>chain agentId key. Inr ''0x00''" and owner' = "''0x01''"]
  note b = validation_verdict [where w = ex_world and checks = "[''wallet'']"
      and c = "''base''" and a = 7 and reg = "asRegistrationFile ex_doc" and owner = ex_owner]
  from a have v: "overallVerdict
        (fst (validationOf ex_world [''endpoints''] ''base'' 7 (asRegistrationFile ex_doc)
                ex_owner))
       = spec_overallVerdict [''Endpoint MCP is unreachable''] [Reachable, Unreachable] False"
    by (simp add: ex_validation_endpoints)
  from a b n s v show ?thesis by blast
qed

text \<open>
  The claim as first stated fails: a request for the endpoints check alone is answered
  with a report that does have a wallet section, the placeholder it was created with.
\<close>

theorem validation_verdict_counterexample:
  "validateInputSchema
      (Some (JObj [(''agentId'', JStr ''7''), (''checks'', JArr [JStr ''endpoints''])]))
     = Inr (7, ''base'', [''endpoints''])
   \<and> ''wallet'' \<notin> set [''endpoints'']
   \<and> fst (validateInvoke ex_world ex_validate_endpoints_body)
     = Success
         \<lparr>vo_agentId = ''7'', vo_chain = ''base'', vo_agentName = Some ''Agent Seven'',
          vo_report =
            \<lparr>endpointStatus =
               [\<lparr>es_name = Some ''A2A'', es_endpoint = Some ''https://one.example/a2a'',
                 es_status = Reachable, es_latencyMs = Some 12, es_error = None\<rparr>,
                \<lparr>es_name = Some ''MCP'', es_endpoint = Some ''https://one.example/mcp'',
                 es_status = Unreachable, es_latencyMs = None,
                 es_error = Some ''Connection failed''\<rparr>],
             walletStatus = \<lparr>ws_address = '''', ws_valid = False, ws_isOwner = False\<rparr>,
             attestations = [],
             overallVerdict = Partial,
             issues = [''Endpoint MCP is unreachable'']\<rparr>\<rparr>"
proof -
  have c: "createClients ''base'' = ''base''" by (simp add: createClients_def)
  have r: "fst (fetchRegistrationFile ex_world (createClients ''base'') 7) = Inr ex_doc"
    using ex_resolve_7 by (simp add: c)
  have o: "getOwner ex_world (createClients ''base'') 7 = Inr ex_owner"
    by (simp add: ex_world_def)
  have n: "rf_name (asRegistrationFile ex_doc) = Some ''Agent Seven''"
    by (simp add: asRegistrationFile_def stringProperty_def ex_doc_def)
  have i: "showNat 7 = ''7''" by (simp add: showNat.simps)
  from ex_validate_input have
    "invokeEnvelopeSchema ex_validate_endpoints_body
       = Inr (Some (JObj [(''agentId'', JStr ''7''), (''checks'', JArr [JStr ''endpoints''])]))"
    "validateInputSchema
        (Some (JObj [(''agentId'', JStr ''7''), (''checks'', JArr [JStr ''endpoints''])]))
       = Inr (7, ''base'', [''endpoints''])" by simp_all
  from validateInvoke_success [OF this r o] ex_validation_endpoints n i c ex_validate_input
  show ?thesis by simp
qed

subsection \<open>The verdict validated-with-warnings is never given\<close>

text \<open>
  An issue is only ever recorded together with an endpoint entry that is not reachable,
  or with a wallet that is not valid. So the second branch of the verdict, issues but all
  endpoints reachable and the wallet valid, is never taken.
\<close>

lemma probeEndpoint_explains:
  "issuesExplained r \<Longrightarrow> issuesExplained (fst (probeEndpoint w ep r))"
  by (auto simp: issuesExplained_def probeEndpoint_def split: probed.splits)

lemma probeEndpoints_explains:
  "issuesExplained r \<Longrightarrow> issuesExplained (fst (probeEndpoints w eps r))"
proof (induction eps arbitrary: r)
  case Nil
  then show ?case by simp
next
  case (Cons ep eps)
  from Cons.IH [OF probeEndpoint_explains [OF Cons.prems, of w ep]]
  show ?case by (simp add: split_beta)
qed

lemma checkEndpoints_explains:
  "issuesExplained (fst (checkEndpoints w checks reg initialReport))"
proof -
  have "issuesExplained initialReport" by (simp add: issuesExplained_def initialReport_def)
  then show ?thesis
    by (simp add: checkEndpoints_def probeEndpoints_explains split: option.splits)
qed

lemma checkWallet_explains:
  assumes "issuesExplained r"
  shows "issues (fst (checkWallet w checks c a owner r)) = []
     \<or> \<not> list_all (\<lambda>e. es_status e = Reachable)
           (endpointStatus (fst (checkWallet w checks c a owner r)))
     \<or> \<not> ws_valid (walletStatus (fst (checkWallet w checks c a owner r)))"
  using assms by (auto simp: issuesExplained_def checkWallet_def Let_def)

lemma never_with_warnings:
  "overallVerdict (fst (validationOf w checks c a reg owner)) \<noteq> ValidatedWithWarnings"
proof -
  let ?r1 = "fst (checkEndpoints w checks reg initialReport)"
  let ?r2 = "fst (checkWallet w checks c a owner ?r1)"
  let ?r3 = "fst (checkAttestations w checks c a reg ?r2)"
  have k: "issues ?r3 = []
     \<or> \<not> list_all (\<lambda>e. es_status e = Reachable) (endpointStatus ?r3)
     \<or> \<not> ws_valid (walletStatus ?r3)"
    using checkWallet_explains [OF checkEndpoints_explains, where w = w and checks = checks
        and c = c and a = a and owner = owner]
    by (simp add: checkAttestations_frame)
  have "overallVerdict (determineVerdict ?r3) \<noteq> ValidatedWithWarnings"
    using k by (auto simp: determineVerdict_def Let_def all_reachable)
  then show ?thesis by (simp add: validationOf_def split_beta)
qed

section \<open>Properties of the feedback read\<close>

lemma readFeedbackSafe_absorbs:
  "readAllFeedback w c a = Inl t \<Longrightarrow>
     readFeedbackSafe w c a
       = (\<lparr>scores = [], clientAddresses = [],
           warning = Some (case t of ErrorObject m \<Rightarrow> m | NotAnError \<Rightarrow> ''Failed to read feedback'')\<rparr>,
          [FeedbackRead c a])"
  by (simp add: readFeedbackSafe_def)

lemma score_without_feedback:
  "scoreOf a c reg \<lparr>scores = [], clientAddresses = [], warning = wn\<rparr>
     = (scoreOf a c reg \<lparr>scores = [], clientAddresses = [], warning = None\<rparr>)
         \<lparr>so_warning := wn\<rparr>
   \<and> so_count (scoreOf a c reg \<lparr>scores = [], clientAddresses = [], warning = wn\<rparr>) = 0
   \<and> so_averageScore (scoreOf a c reg \<lparr>scores = [], clientAddresses = [], warning = wn\<rparr>) = 0
   \<and> so_feedbackScore (scoreOf a c reg \<lparr>scores = [], clientAddresses = [], warning = wn\<rparr>) = 50
   \<and> effectiveBaseScore \<lparr>scores = [], clientAddresses = [], warning = wn\<rparr> = 50"
  by (simp add: scoreOf_def trustScore_def effectiveBaseScore_def reputationConfidence_def
      volumeScore_def consistencyScore_def feedbackCount_def avgScore_def Math_round_def)

lemma score_survives_failed_read:
  assumes "invokeEnvelopeSchema body = Inr input" "scoreInputSchema input = Inr (agentId, chain)"
    "fst (fetchRegistrationFile w (createClients chain) agentId) = Inr doc"
    "readAllFeedback w (createClients chain) agentId = Inl t"
  shows "fst (scoreInvoke w body)
     = Success (scoreOf agentId chain (asRegistrationFile doc)
         \<lparr>scores = [], clientAddresses = [],
          warning = Some (case t of ErrorObject m \<Rightarrow> m
                          | NotAnError \<Rightarrow> ''Failed to read feedback'')\<rparr>)"
  using assms by (simp add: scoreInvoke_def Let_def split_beta readFeedbackSafe_absorbs)

lemma attest_reports_warning:
  assumes "readAllFeedback w c a = Inl (ErrorObject m)" "m \<noteq> ''''"
  shows "attestations (fst (attest w c a ''reputation'' r))
     = attestations r @
         [\<lparr>at_type = ''reputation'', at_status = ''no-feedback'',
           at_details = Some (''feedback unavailable: '' @ m)\<rparr>]"
  using assms by (simp add: attest_def readFeedbackSafe_absorbs)

lemma ex_attest_input:
  "invokeEnvelopeSchema ex_validate_attestations_body
     = Inr (Some (JObj [(''agentId'', JStr ''7''), (''checks'', JArr [JStr ''attestations''])]))
   \<and> validateInputSchema
        (Some (JObj [(''agentId'', JStr ''7''), (''checks'', JArr [JStr ''attestations''])]))
     = Inr (7, ''base'', [''attestations''])"
  by (simp add: ex_validate_attestations_body_def handler_eval)

lemma ex_attestations:
  "fst (validationOf ex_world [''attestations''] ''base'' 7 (asRegistrationFile ex_doc)
          ex_owner)
     = \<lparr>endpointStatus = [],
        walletStatus = \<lparr>ws_address = [], ws_valid = False, ws_isOwner = False\<rparr>,
        attestations =
          [\<lparr>at_type = ''reputation'', at_status = ''no-feedback'',
            at_details = Some ''0 feedbacks, avg score: 0''\<rparr>,
           \<lparr>at_type = ''tee-attestation'', at_status = ''declared'',
            at_details = Some ''TEE attestation verification not yet implemented''\<rparr>],
        overallVerdict = Validated,
        issues = []\<rparr>"
  by (simp add: validationOf_def checkEndpoints_def checkWallet_def checkAttestations_def
      attest_def readFeedbackSafe_def determineVerdict_def initialReport_def handler_eval
      ex_world_def Let_def reduce_sum_def Math_round_def showInt_def showNat.simps)

lemma ex_attestations_no_feedback:
  "fst (validationOf ex_world_no_feedback [''attestations''] ''base'' 7
          (asRegistrationFile ex_doc) ex_owner)
     = fst (validationOf ex_world [''attestations''] ''base'' 7 (asRegistrationFile ex_doc)
              ex_owner)"
  by (simp add: validationOf_def checkEndpoints_def checkWallet_def checkAttestations_def
      attest_def readFeedbackSafe_def determineVerdict_def initialReport_def handler_eval
      ex_world_no_feedback_def ex_world_def Let_def reduce_sum_def Math_round_def showInt_def
      showNat.simps)

text \<open>
  The score route in the sample world, where the feedback read throws: the answer is 200,
  computed as without feedback (base score 50), and carries the warning.
\<close>

lemma ex_score_failed_read:
  "fst (scoreInvoke ex_world ex_score_body)
     = Success
         \<lparr>so_agentId = ''7'', so_chain = ''base'', so_trustScore = 65, so_verdict = Trusted,
          so_feedbackScore = 50, so_identityMaturity = 50, so_reputationConfidence = 0,
          so_count = 0, so_averageScore = 0, so_uniqueClients = 0, so_warning = Some [],
          so_agentName = Some ''Agent Seven''\<rparr>"
proof -
  have c: "createClients ''base'' = ''base''" by (simp add: createClients_def)
  have i: "invokeEnvelopeSchema ex_score_body = Inr (Some (JObj [(''agentId'', JStr ''7'')]))"
    "scoreInputSchema (Some (JObj [(''agentId'', JStr ''7'')])) = Inr (7, ''base'')"
    by (simp_all add: ex_score_body_def handler_eval)
  have r: "fst (fetchRegistrationFile ex_world (createClients ''base'') 7) = Inr ex_doc"
    using ex_resolve_7 by (simp add: c)
  have f: "readAllFeedback ex_world (createClients ''base'') 7 = Inl (ErrorObject [])"
    by (simp add: ex_world_def)
  have m: "identityMaturity (asRegistrationFile ex_doc) = 50"
    by (simp add: identityMaturity_def hasEndpoints_def hasTrustMethods_def handler_eval)
  have t: "trustScore (asRegistrationFile ex_doc)
             \<lparr>scores = [], clientAddresses = [], warning = Some []\<rparr> = 65"
    by (simp add: trustScore_def m effectiveBaseScore_def reputationConfidence_def
        volumeScore_def consistencyScore_def feedbackCount_def avgScore_def Math_round_def)
  have n: "rf_name (asRegistrationFile ex_doc) = Some ''Agent Seven''"
    by (simp add: asRegistrationFile_def stringProperty_def ex_doc_def)
  have d: "showNat 7 = ''7''" by (simp add: showNat.simps)
  from score_survives_failed_read [OF i r f] m t n d show ?thesis
    by (simp add: scoreOf_def verdictOf_def effectiveBaseScore_def reputationConfidence_def
        volumeScore_def consistencyScore_def feedbackCount_def avgScore_def Math_round_def)
qed

text \<open>
  C10. A feedback read that throws is absorbed by \<^verbatim>\<open>readFeedbackSafe\<close>, and the score
  route answers as for an agent without feedback, the warning apart (the lemmas above).
  The validate route, however, does not report every warning: when the read throws an
  \<^verbatim>\<open>Error\<close> whose message is empty, the warning is the empty string, the attestation
  tests it for truthiness, and the details are those of an agent that has no feedback. In
  the sample world the read throws such an error; the attestation for agent 7 is the same
  as in the world where the read succeeds and finds nothing.
\<close>

theorem empty_warning_not_reported:
  "readAllFeedback ex_world (createClients ''base'') 7 = Inl (ErrorObject [])
   \<and> fst (readFeedbackSafe ex_world (createClients ''base'') 7)
       = \<lparr>scores = [], clientAddresses = [], warning = Some []\<rparr>
   \<and> fst (validateInvoke ex_world ex_validate_attestations_body)
       = Success
           \<lparr>vo_agentId = ''7'', vo_chain = ''base'', vo_agentName = Some ''Agent Seven'',
            vo_report =
              \<lparr>endpointStatus = [],
               walletStatus = \<lparr>ws_address = [], ws_valid = False, ws_isOwner = False\<rparr>,
               attestations =
                 [\<lparr>at_type = ''reputation'', at_status = ''no-feedback'',
                   at_details = Some ''0 feedbacks, avg score: 0''\<rparr>,
                  \<lparr>at_type = ''tee-attestation'', at_status = ''declared'',
                   at_details = Some ''TEE attestation verification not yet implemented''\<rparr>],
               overallVerdict = Validated,
               issues = []\<rparr>\<rparr>
   \<and> fst (validateInvoke ex_world_no_feedback ex_validate_attestations_body)
       = fst (validateInvoke ex_world ex_validate_attestations_body)"
proof -
  have c: "createClients ''base'' = ''base''" by (simp add: createClients_def)
  have f: "readAllFeedback ex_world (createClients ''base'') 7 = Inl (ErrorObject [])"
    by (simp add: ex_world_def)
  have r: "fst (fetchRegistrationFile ex_world (createClients ''base'') 7) = Inr ex_doc"
    using ex_resolve_7 by (simp add: c)
  have o: "getOwner ex_world (createClients ''base'') 7 = Inr ex_owner"
    by (simp add: ex_world_def)
  have r': "fst (fetchRegistrationFile ex_world_no_feedback (createClients ''base'') 7)
      = Inr ex_doc"
    by (simp add: c ex_world_no_feedback_def fetchRegistrationFile_def parseDataUri_def
        dataUriPayload_def fetchUrls_def startsWith_def ok_def ex_world_eval Let_def)
  have o': "getOwner ex_world_no_feedback (createClients ''base'') 7 = Inr ex_owner"
    by (simp add: ex_world_no_feedback_def ex_world_def)
  have n: "rf_name (asRegistrationFile ex_doc) = Some ''Agent Seven''"
    by (simp add: asRegistrationFile_def stringProperty_def ex_doc_def)
  have d: "showNat 7 = ''7''" by (simp add: showNat.simps)
  from ex_attest_input have i:
    "invokeEnvelopeSchema ex_validate_attestations_body
       = Inr (Some (JObj [(''agentId'', JStr ''7''), (''checks'', JArr [JStr ''attestations''])]))"
    "validateInputSchema
        (Some (JObj [(''agentId'', JStr ''7''), (''checks'', JArr [JStr ''attestations''])]))
       = Inr (7, ''base'', [''attestations''])" by simp_all
  note a = validateInvoke_success [OF i r o]
  note b = validateInvoke_success [OF i r' o']
  from a b ex_attestations_no_feedback c
  have e: "fst (validateInvoke ex_world_no_feedback ex_validate_attestations_body)
       = fst (validateInvoke ex_world ex_validate_attestations_body)"
    by simp
  from f have s: "fst (readFeedbackSafe ex_world (createClients ''base'') 7)
       = \<lparr>scores = [], clientAddresses = [], warning = Some []\<rparr>"
    by (simp add: readFeedbackSafe_def)
  from a c n d ex_attestations f s e show ?thesis by simp
qed

end
